theory Spec2Isabelle
  imports Complex_Main
begin

section \<open>Spectral convolution layer (keras\_addon/layers/fno/base\_spectral\_conv.py)\<close>

text \<open>
  A shallow embedding of \<^verbatim>\<open>BaseSpectralConv\<close>: its constructor, \<^verbatim>\<open>build\<close>,
  \<^verbatim>\<open>rfft_shift\<close>, \<^verbatim>\<open>call\<close> on both backends, \<^verbatim>\<open>get_config\<close> and
  \<^verbatim>\<open>from_config\<close>. Exceptions are values of \<open>error\<close>; a method that mutates
  \<^verbatim>\<open>self\<close> returns the layer it leaves behind.
\<close>

subsection \<open>Errors\<close>

datatype error =
    ValueError string
  | NotImplementedError string
  | KeyError string
  | AttributeError string
  | TypeError string
  | IndexError string
  | UnboundLocalError string

fun bindE :: "error + 'a \<Rightarrow> ('a \<Rightarrow> error + 'b) \<Rightarrow> error + 'b" where
  "bindE (Inl e) f = Inl e"
| "bindE (Inr v) f = f v"

fun is_ValueError :: "error \<Rightarrow> bool" where
  "is_ValueError (ValueError m) = True"
| "is_ValueError e = False"

fun is_NotImplementedError :: "error \<Rightarrow> bool" where
  "is_NotImplementedError (NotImplementedError m) = True"
| "is_NotImplementedError e = False"

subsection \<open>Tensors\<close>

text \<open>
  A tensor is a nested list of reals, as \<^verbatim>\<open>ndarray.tolist()\<close> prints it. Every axis
  of a tensor in this development is non-empty and every level is rectangular, so that
  the shape can be read off the first entries.
\<close>

datatype tensor = Scal real | Arr "tensor list"

fun shape :: "tensor \<Rightarrow> nat list" where
  "shape (Scal x) = []"
| "shape (Arr []) = [0]"
| "shape (Arr (t # ts)) = Suc (length ts) # shape t"

definition ndim :: "tensor \<Rightarrow> nat" where
  "ndim t = length (shape t)"

text \<open>Element at a full index, and the tensor of a given shape with given elements.\<close>

fun lookup :: "tensor \<Rightarrow> nat list \<Rightarrow> real" where
  "lookup (Scal x) idx = x"
| "lookup (Arr ts) [] = 0"
| "lookup (Arr ts) (i # idx) = (if i < length ts then lookup (ts ! i) idx else 0)"

fun tabulate :: "nat list \<Rightarrow> (nat list \<Rightarrow> real) \<Rightarrow> tensor" where
  "tabulate [] f = Scal (f [])"
| "tabulate (n # ns) f = Arr (map (\<lambda>i. tabulate ns (\<lambda>idx. f (i # idx))) [0..<n])"

subsection \<open>What the layer takes from Keras and from the repository's \<^verbatim>\<open>ops.fft\<close>\<close>

text \<open>
  The layer calls into Keras and into the module \<^verbatim>\<open>keras_addon.ops.fft\<close>, neither
  of which is among the sources. What Keras returns where the layer does not depend on
  how (\<^verbatim>\<open>standardize_data_format\<close>, \<^verbatim>\<open>backend()\<close>, \<^verbatim>\<open>Layer.get_config\<close>, the
  \<^verbatim>\<open>get\<close>/\<^verbatim>\<open>serialize\<close>/\<^verbatim>\<open>deserialize\<close> functions of initializers, regularizers and
  constraints, the values an initializer fills a variable with) and the attributes of the
  transform module are parameters of the model, collected in one record. \<open>'i\<close> is the
  type of an identifier handed to a \<^verbatim>\<open>get\<close> function, \<open>'o\<close> of the object it returns
  and \<open>'c\<close> of a serialized object. A configuration is a dictionary from keys to the
  values that \<^verbatim>\<open>get_config\<close> stores. The two Keras functions whose errors decide
  what the layer accepts, \<^verbatim>\<open>standardize_tuple\<close> and \<^verbatim>\<open>Layer.add_weight\<close>, are
  modelled below as Keras 3 defines them.
\<close>

datatype ('o, 'c) cfg_value =
    CInt "int option"
  | CTuple "int list"
  | CStr string
  | CName "string option"
  | CBool bool
  | CSerialized 'c
  | CObject 'o

type_synonym ('o, 'c) config = "string \<rightharpoonup> ('o, 'c) cfg_value"

record ('i, 'o, 'c) keras =
  backend :: string
  layer_get_config :: "string option \<Rightarrow> ('o, 'c) config"
  standardize_data_format :: "string option \<Rightarrow> error + string"
  initializers_get :: "'i \<Rightarrow> 'o"
  regularizers_get :: "'i \<Rightarrow> 'o"
  constraints_get :: "'i \<Rightarrow> 'o"
  initializers_serialize :: "'o \<Rightarrow> 'c"
  regularizers_serialize :: "'o \<Rightarrow> 'c"
  constraints_serialize :: "'o \<Rightarrow> 'c"
  initializers_deserialize :: "'c \<Rightarrow> 'o"
  regularizers_deserialize :: "'c \<Rightarrow> 'o"
  constraints_deserialize :: "'c \<Rightarrow> 'o"
  fft_forward :: "string \<rightharpoonup> (tensor \<Rightarrow> tensor \<times> tensor)"
  fft_inverse :: "string \<rightharpoonup> (tensor \<times> tensor \<Rightarrow> tensor)"
  initial_value :: "'o \<Rightarrow> nat list \<Rightarrow> tensor"

text \<open>
  \<^verbatim>\<open>standardize_tuple(value, n, name)\<close> of
  \<^verbatim>\<open>keras.src.utils.argument_validation\<close>, with \<^verbatim>\<open>allow_zero\<close> at its default
  \<^verbatim>\<open>False\<close>: an integer becomes the tuple that repeats it \<open>n\<close> times; a sequence
  must have \<open>n\<close> entries; and a tuple with an entry that is zero or negative raises
  \<^verbatim>\<open>ValueError\<close>. The argument is an integer or a sequence of integers.
\<close>

datatype modes_arg = ModesInt int | ModesSeq "int list"

definition positive_tuple :: "int list \<Rightarrow> error + int list" where
  "positive_tuple vs =
     (if list_ex (\<lambda>v. v \<le> 0) vs
      then Inl (ValueError ''The modes argument must be a tuple of integers, including values that do not satisfy value > 0'')
      else Inr vs)"

fun standardize_tuple :: "modes_arg \<Rightarrow> nat \<Rightarrow> error + int list" where
  "standardize_tuple (ModesInt v) n = positive_tuple (replicate n v)"
| "standardize_tuple (ModesSeq vs) n =
     (if length vs = n then positive_tuple vs
      else Inl (ValueError ''The modes argument must be a tuple of the given number of integers''))"

text \<open>The entries of the \<^verbatim>\<open>modes\<close> argument of a layer of rank \<open>n\<close>.\<close>

primrec given_modes :: "modes_arg \<Rightarrow> nat \<Rightarrow> int list" where
  "given_modes (ModesInt v) n = replicate n v"
| "given_modes (ModesSeq vs) n = vs"

text \<open>
  \<^verbatim>\<open>Layer.add_weight(name, shape, initializer, ...)\<close>: Keras creates a variable only
  for a fully defined shape. It raises \<^verbatim>\<open>ValueError\<close> for a shape with a negative
  extent, and then for a shape that holds \<^verbatim>\<open>None\<close>; otherwise the variable holds
  what the initializer returns for the shape.
\<close>

definition add_weight ::
  "('i, 'o, 'c) keras \<Rightarrow> string \<Rightarrow> int option list \<Rightarrow> 'o \<Rightarrow> error + tensor" where
  "add_weight K nm shp ini =
     (if list_ex (\<lambda>d. case d of None \<Rightarrow> False | Some n \<Rightarrow> n < 0) shp
      then Inl (ValueError ''Negative dimensions are not allowed'')
      else if list_ex (\<lambda>d. d = None) shp
      then Inl (ValueError ''Shapes used to initialize variables must be fully-defined'')
      else Inr (initial_value K ini (map (\<lambda>d. case d of None \<Rightarrow> 0 | Some n \<Rightarrow> nat n) shp)))"

subsection \<open>The layer object\<close>

text \<open>
  The attributes set by \<^verbatim>\<open>__init__\<close> come first. The attributes that only
  \<^verbatim>\<open>build\<close> sets are options: \<open>None\<close> is an attribute that does not exist yet, and
  reading it raises \<^verbatim>\<open>AttributeError\<close>. \<open>weights\<close> is the list of variables that
  \<^verbatim>\<open>add_weight\<close> has registered, each with its name and the shape it was asked for.
\<close>

record 'o layer =
  name :: "string option"
  rank :: nat
  filters :: "int option"
  modes :: "int list"
  use_bias :: bool
  kernel_initializer :: 'o
  bias_initializer :: 'o
  kernel_regularizer :: 'o
  bias_regularizer :: 'o
  kernel_constraint :: 'o
  bias_constraint :: 'o
  data_format :: string
  rfft_fn :: "tensor \<Rightarrow> tensor \<times> tensor"
  irfft_fn :: "tensor \<times> tensor \<Rightarrow> tensor"
  built :: bool
  weights :: "(string \<times> int option list \<times> tensor) list"
  transpose_op :: "(tensor \<Rightarrow> tensor) option"
  inverse_transpose_op :: "(tensor \<Rightarrow> tensor) option"
  pad_width :: "(int \<times> int) list option"
  input_spec :: "(nat \<times> int \<times> int option) option"
  real_kernel :: "tensor option"
  imag_kernel :: "tensor option"
  bias :: "tensor option"
  feature_dims :: "int option list option"
  mode_truncation_slice :: "int option list option"
  einsum_op_forward :: "string option"
  einsum_op_backprop_weights :: "string option"
  einsum_op_backprop_x :: "string option"
  einsum_op_backprop_bias :: "string option"

subsection \<open>\<^verbatim>\<open>__init__\<close>\<close>

fun string_of_nat :: "nat \<Rightarrow> string" where
  "string_of_nat n =
     (if n < 10 then [''0123456789'' ! n]
      else string_of_nat (n div 10) @ [''0123456789'' ! (n mod 10)])"

declare string_of_nat.simps [simp del]

text \<open>\<^verbatim>\<open>"rfft" if self.rank == 1 else f"rfft{self.rank}"\<close>, and the same for \<^verbatim>\<open>irfft\<close>.\<close>

definition fft_name :: "string \<Rightarrow> nat \<Rightarrow> string" where
  "fft_name base r = (if r = 1 then base else base @ string_of_nat r)"

text \<open>\<^verbatim>\<open>all(self.modes)\<close>: every entry is truthy, that is, non-zero.\<close>

definition py_all :: "int list \<Rightarrow> bool" where
  "py_all ms = list_all (\<lambda>m. m \<noteq> 0) ms"

definition init ::
  "('i, 'o, 'c) keras \<Rightarrow> nat \<Rightarrow> int option \<Rightarrow> modes_arg \<Rightarrow> string option \<Rightarrow> bool \<Rightarrow>
   'i \<Rightarrow> 'i \<Rightarrow> 'i \<Rightarrow> 'i \<Rightarrow> 'i \<Rightarrow> 'i \<Rightarrow> string option \<Rightarrow> error + 'o layer" where
  "init K rank' filters' modes' data_format' use_bias' kernel_initializer' bias_initializer'
        kernel_constraint' bias_constraint' kernel_regularizer' bias_regularizer' name' =
     bindE (standardize_tuple modes' rank') (\<lambda>ms.
     bindE (standardize_data_format K data_format') (\<lambda>df.
     case fft_forward K (fft_name ''rfft'' rank') of
       None \<Rightarrow> Inl (AttributeError (fft_name ''rfft'' rank'))
     | Some rf \<Rightarrow>
     (case fft_inverse K (fft_name ''irfft'' rank') of
       None \<Rightarrow> Inl (AttributeError (fft_name ''irfft'' rank'))
     | Some irf \<Rightarrow>
       if filters' \<noteq> None \<and> the filters' \<le> 0 then
         Inl (ValueError ''Invalid value for argument filters. Expected a strictly positive value.'')
       else if \<not> py_all ms then
         Inl (ValueError ''The argument modes cannot contain 0.'')
       else if df = ''channels_first'' then
         Inl (NotImplementedError ''Data format channels_first is currently not supported.'')
       else
         Inr \<lparr> name = name', rank = rank', filters = filters', modes = ms,
               use_bias = use_bias',
               kernel_initializer = initializers_get K kernel_initializer',
               bias_initializer = initializers_get K bias_initializer',
               kernel_regularizer = regularizers_get K kernel_regularizer',
               bias_regularizer = regularizers_get K bias_regularizer',
               kernel_constraint = constraints_get K kernel_constraint',
               bias_constraint = constraints_get K bias_constraint',
               data_format = df, rfft_fn = rf, irfft_fn = irf,
               built = False, weights = [],
               transpose_op = None, inverse_transpose_op = None, pad_width = None,
               input_spec = None, real_kernel = None, imag_kernel = None, bias = None,
               feature_dims = None, mode_truncation_slice = None,
               einsum_op_forward = None, einsum_op_backprop_weights = None,
               einsum_op_backprop_x = None, einsum_op_backprop_bias = None \<rparr>)))"

subsection \<open>\<^verbatim>\<open>build\<close>\<close>

text \<open>
  An input shape is a tuple whose entries are integers or \<^verbatim>\<open>None\<close> (an unknown
  extent, usually the batch size). Arithmetic on \<^verbatim>\<open>None\<close> raises \<^verbatim>\<open>TypeError\<close>.
\<close>

type_synonym input_shape = "int option list"

text \<open>\<^verbatim>\<open>ops.transpose(x, axes)\<close>: axis \<open>k\<close> of the result is axis \<open>axes ! k\<close> of \<open>x\<close>.\<close>

fun index_of :: "nat \<Rightarrow> nat list \<Rightarrow> nat" where
  "index_of d [] = 0"
| "index_of d (a # as) = (if a = d then 0 else Suc (index_of d as))"

definition ops_transpose :: "nat list \<Rightarrow> tensor \<Rightarrow> tensor" where
  "ops_transpose axes x =
     tabulate (map (\<lambda>a. shape x ! a) axes)
       (\<lambda>j. lookup x (map (\<lambda>d. j ! index_of d axes) [0..<length axes]))"

text \<open>\<^verbatim>\<open>xs.insert(1, v)\<close> and the list left by \<^verbatim>\<open>xs.pop(1)\<close>.\<close>

definition insert_at_1 :: "'a \<Rightarrow> 'a list \<Rightarrow> 'a list" where
  "insert_at_1 v xs = take 1 xs @ [v] @ drop 1 xs"

definition without_1 :: "'a list \<Rightarrow> 'a list" where
  "without_1 xs = take 1 xs @ drop 2 xs"

text \<open>
  The entries of \<^verbatim>\<open>self.pad_width\<close> after the two leading \<^verbatim>\<open>(0, 0)\<close>: the list
  comprehension over \<^verbatim>\<open>enumerate(zip(self.modes, input_shape[1:]))\<close>, from index \<open>i\<close>
  on; \<open>n\<close> is \<^verbatim>\<open>len(self.modes)\<close>.
\<close>

fun pad_entries :: "nat \<Rightarrow> nat \<Rightarrow> (int \<times> int option) list \<Rightarrow> error + (int \<times> int) list" where
  "pad_entries i n [] = Inr []"
| "pad_entries i n ((m, None) # rest) =
     Inl (TypeError ''unsupported operand type(s) for NoneType and int'')"
| "pad_entries i n ((m, Some s) # rest) =
     bindE (pad_entries (Suc i) n rest) (\<lambda>ps.
       Inr ((0, if int i = int n - 1 then s div 2 + 1 - m else s - m) # ps))"

text \<open>Python's order on pairs, as in \<^verbatim>\<open>x < (0, 0)\<close>.\<close>

fun tuple_less :: "int \<times> int \<Rightarrow> int \<times> int \<Rightarrow> bool" where
  "tuple_less (a, b) (c, d) = (a < c \<or> (a = c \<and> b < d))"

text \<open>\<^verbatim>\<open>"".join([d for _, d in zip(self.modes, ["X", "Y", "Z"])])\<close>\<close>

definition einsum_dim :: "int list \<Rightarrow> string" where
  "einsum_dim ms = map snd (zip ms ''XYZ'')"

text \<open>
  \<^verbatim>\<open>backend == "tensorflow"\<close>, where \<^verbatim>\<open>backend\<close> is the function imported from
  \<^verbatim>\<open>keras.src.backend.config\<close> and is not called: a function object and a string
  are never equal.
\<close>

definition function_eq_string :: "string \<Rightarrow> bool" where
  "function_eq_string s = False"

text \<open>
  The end of \<^verbatim>\<open>build\<close> (lines 162 to 182). \<open>axes\<close> is \<open>None\<close> in the branch
  that never binds the local variable \<^verbatim>\<open>axes\<close>. With \<^verbatim>\<open>channel_axis = -1\<close>,
  the two \<^verbatim>\<open>pop\<close> calls drop the first and the last axis.

  Line 175 reads \<^verbatim>\<open>if backend == "tensorflow":\<close>, while \<^verbatim>\<open>call\<close> reads
  \<^verbatim>\<open>if backend() == "tensorflow":\<close>.
\<close>

definition build_finish ::
  "'o layer \<Rightarrow> nat list option \<Rightarrow> input_shape \<Rightarrow> error option \<times> 'o layer" where
  "build_finish L axes input_shape =
     (case axes of
        None \<Rightarrow> (Some (UnboundLocalError ''axes''), L)
      | Some ax \<Rightarrow>
          (if ax = [] \<or> tl ax = [] then (Some (IndexError ''pop from empty list''), L)
           else
             let feature_axes = butlast (tl ax);
                 L6 = L\<lparr>feature_dims := Some (map (\<lambda>a. input_shape ! a) feature_axes),
                        mode_truncation_slice := Some (None # None # map Some (modes L))\<rparr>;
                 d = einsum_dim (modes L);
                 L7 = L6\<lparr>einsum_op_forward :=
                           Some (''bi'' @ d @ '',io'' @ d @ ''->bo'' @ d)\<rparr>;
                 L8 = (if function_eq_string ''tensorflow''
                       then L7\<lparr>einsum_op_backprop_weights :=
                                  Some (''bo'' @ d @ '',bi'' @ d @ ''->io'' @ d),
                                einsum_op_backprop_x :=
                                  Some (''bo'' @ d @ '',io'' @ d @ ''->bi'' @ d),
                                einsum_op_backprop_bias := Some (''bo'' @ d @ ''->o'')\<rparr>
                       else L7)
             in (None, L8\<lparr>built := True\<rparr>)))"

text \<open>
  A step of \<^verbatim>\<open>build\<close> runs only if the steps before it raised nothing; an exception
  leaves the layer as it was when it was raised.
\<close>

fun and_then ::
  "error option \<times> 'o layer \<Rightarrow> ('o layer \<Rightarrow> error option \<times> 'o layer) \<Rightarrow>
   error option \<times> 'o layer" where
  "and_then (Some e, L) f = (Some e, L)"
| "and_then (None, L) f = f L"

text \<open>
  \<^verbatim>\<open>self.attribute = self.add_weight(name, shape, initializer, ...)\<close>: the variable is
  registered with the layer and assigned to the attribute.
\<close>

definition add_weight_as ::
  "('i, 'o, 'c) keras \<Rightarrow> string \<Rightarrow> int option list \<Rightarrow> 'o \<Rightarrow>
   (tensor \<Rightarrow> 'o layer \<Rightarrow> 'o layer) \<Rightarrow> 'o layer \<Rightarrow> error option \<times> 'o layer" where
  "add_weight_as K nm shp ini assign L =
     (case add_weight K nm shp ini of
        Inl e \<Rightarrow> (Some e, L)
      | Inr t \<Rightarrow> (None, assign t (L\<lparr>weights := weights L @ [(nm, shp, t)]\<rparr>)))"

text \<open>The three calls of \<^verbatim>\<open>self.add_weight\<close> (lines 109 to 142).\<close>

definition build_weights ::
  "('i, 'o, 'c) keras \<Rightarrow> 'o layer \<Rightarrow> int option \<Rightarrow> error option \<times> 'o layer" where
  "build_weights K L input_channel =
     (let kernel_shape = input_channel # filters L # map Some (modes L);
          bias_shape = filters L # replicate (rank L) (Some 1)
      in and_then (add_weight_as K ''real_kernel'' kernel_shape (kernel_initializer L)
                     (\<lambda>t L'. L'\<lparr>real_kernel := Some t\<rparr>) L) (\<lambda>L3.
         and_then (add_weight_as K ''imag_kernel'' kernel_shape (kernel_initializer L)
                     (\<lambda>t L'. L'\<lparr>imag_kernel := Some t\<rparr>) L3) (\<lambda>L4.
         if use_bias L
         then add_weight_as K ''bias'' bias_shape (bias_initializer L)
                (\<lambda>t L'. L'\<lparr>bias := Some t\<rparr>) L4
         else (None, L4\<lparr>bias := None\<rparr>))))"

text \<open>
  The padding plan, its check and the input spec (lines 96 to 107); \<open>sp\<close> is the slice of
  the input shape that is zipped with the modes.
\<close>

definition build_rest ::
  "('i, 'o, 'c) keras \<Rightarrow> 'o layer \<Rightarrow> int \<Rightarrow> int option \<Rightarrow> nat list option \<Rightarrow>
   input_shape \<Rightarrow> input_shape \<Rightarrow> error option \<times> 'o layer" where
  "build_rest K L channel_axis input_channel axes input_shape sp =
     (case pad_entries 0 (length (modes L)) (zip (modes L) sp) of
        Inl e \<Rightarrow> (Some e, L)
      | Inr ps \<Rightarrow>
          (let pw = (0, 0) # (0, 0) # ps;
               L1 = L\<lparr>pad_width := Some pw\<rparr>
           in if filter (\<lambda>x. tuple_less x (0, 0)) pw \<noteq> [] then
                (Some (ValueError ''Too many modes for input shape!''), L1)
              else
                let L2 = L1\<lparr>input_spec := Some (rank L + 2, channel_axis, input_channel)\<rparr>
                in and_then (build_weights K L2 input_channel)
                     (\<lambda>L5. build_finish L5 axes input_shape)))"

definition build ::
  "('i, 'o, 'c) keras \<Rightarrow> 'o layer \<Rightarrow> input_shape \<Rightarrow> error option \<times> 'o layer" where
  "build K L input_shape =
     (if built L then (None, L)
      else if data_format L = ''channels_last'' then
        (if input_shape = [] then (Some (IndexError ''tuple index out of range''), L)
         else
           let input_channel = last input_shape;
               axes = [0..<length input_shape];
               transpose_axes = insert_at_1 (last axes) (butlast axes)
           in if length axes < 2 then (Some (IndexError ''pop index out of range''), L)
              else
           let inverse_transpose_axes = without_1 axes @ [axes ! 1];
               L1 = L\<lparr>transpose_op := Some (ops_transpose transpose_axes),
                       inverse_transpose_op := Some (ops_transpose inverse_transpose_axes)\<rparr>
           in build_rest K L1 (- 1) input_channel (Some axes) input_shape (drop 1 input_shape))
      else
        (if length input_shape < 2 then (Some (IndexError ''tuple index out of range''), L)
         else
           let input_channel = input_shape ! 1;
               L1 = L\<lparr>transpose_op := Some (\<lambda>x. x), inverse_transpose_op := Some (\<lambda>x. x)\<rparr>
           in build_rest K L1 1 input_channel None input_shape (drop 2 input_shape)))"

subsection \<open>The tensor operations that \<^verbatim>\<open>call\<close> uses\<close>

text \<open>
  \<^verbatim>\<open>ops.roll(x, shift, axis)\<close>: entry \<open>i\<close> moves to position \<open>(i + shift) mod n\<close> along
  the axis, so that position \<open>j\<close> of the result holds entry \<open>(j - shift) mod n\<close>.
\<close>

definition roll_list :: "int \<Rightarrow> 'a list \<Rightarrow> 'a list" where
  "roll_list s xs = rotate (nat ((- s) mod int (length xs))) xs"

fun ops_roll :: "int \<Rightarrow> nat \<Rightarrow> tensor \<Rightarrow> tensor" where
  "ops_roll s a (Scal x) = Scal x"
| "ops_roll s 0 (Arr ts) = Arr (roll_list s ts)"
| "ops_roll s (Suc a) (Arr ts) = Arr (map (ops_roll s a) ts)"

text \<open>
  \<^verbatim>\<open>xs[:m]\<close>: a negative stop counts from the end. \<^verbatim>\<open>x[slices]\<close> takes one slice per
  leading axis; \<open>None\<close> is \<^verbatim>\<open>slice(None)\<close> and \<open>Some m\<close> is \<^verbatim>\<open>slice(None, m)\<close>.
\<close>

definition py_take :: "int \<Rightarrow> 'a list \<Rightarrow> 'a list" where
  "py_take m xs = (if 0 \<le> m then take (nat m) xs else take (length xs - nat (- m)) xs)"

fun getitem :: "int option list \<Rightarrow> tensor \<Rightarrow> tensor" where
  "getitem [] t = t"
| "getitem (s # ss) (Scal x) = Scal x"
| "getitem (s # ss) (Arr ts) =
     Arr (map (getitem ss) (case s of None \<Rightarrow> ts | Some m \<Rightarrow> py_take m ts))"

text \<open>
  \<^verbatim>\<open>ops.pad(x, pad_width)\<close> in its default mode: \<open>lo\<close> zero slices before and \<open>hi\<close>
  zero slices after the entries of each axis. \<^verbatim>\<open>build\<close> has rejected negative widths.
\<close>

primrec zeros_like :: "tensor \<Rightarrow> tensor" where
  "zeros_like (Scal x) = Scal 0"
| "zeros_like (Arr ts) = Arr (map zeros_like ts)"

fun ops_pad :: "(int \<times> int) list \<Rightarrow> tensor \<Rightarrow> tensor" where
  "ops_pad [] t = t"
| "ops_pad (p # ps) (Scal x) = Scal x"
| "ops_pad ((lo, hi) # ps) (Arr ts) =
     (case map (ops_pad ps) ts of
        [] \<Rightarrow> Arr []
      | t # ts' \<Rightarrow>
          Arr (replicate (nat lo) (zeros_like t) @ (t # ts') @ replicate (nat hi) (zeros_like t)))"

text \<open>
  Elementwise arithmetic with NumPy broadcasting: the shapes are aligned at their last
  axes, and two extents are compatible when they are equal or one of them is 1.
\<close>

fun broadcast_rev :: "nat list \<Rightarrow> nat list \<Rightarrow> nat list option" where
  "broadcast_rev [] ys = Some ys"
| "broadcast_rev (x # xs) [] = Some (x # xs)"
| "broadcast_rev (x # xs) (y # ys) =
     (if x = y \<or> y = 1 then map_option (Cons x) (broadcast_rev xs ys)
      else if x = 1 then map_option (Cons y) (broadcast_rev xs ys)
      else None)"

definition broadcast_shapes :: "nat list \<Rightarrow> nat list \<Rightarrow> nat list option" where
  "broadcast_shapes a b = map_option rev (broadcast_rev (rev a) (rev b))"

text \<open>The index into an operand of shape \<open>sh\<close> that index \<open>idx\<close> of the result reads.\<close>

definition bc_index :: "nat list \<Rightarrow> nat list \<Rightarrow> nat list" where
  "bc_index sh idx =
     map (\<lambda>(n, i). if n = 1 then 0 else i) (zip sh (drop (length idx - length sh) idx))"

definition ops_binary :: "(real \<Rightarrow> real \<Rightarrow> real) \<Rightarrow> tensor \<Rightarrow> tensor \<Rightarrow> error + tensor" where
  "ops_binary f a b =
     (case broadcast_shapes (shape a) (shape b) of
        None \<Rightarrow> Inl (ValueError ''operands could not be broadcast together'')
      | Some sh \<Rightarrow>
          Inr (tabulate sh
                 (\<lambda>idx. f (lookup a (bc_index (shape a) idx)) (lookup b (bc_index (shape b) idx)))))"

definition ops_add :: "tensor \<Rightarrow> tensor \<Rightarrow> error + tensor" where
  "ops_add = ops_binary (+)"

definition ops_subtract :: "tensor \<Rightarrow> tensor \<Rightarrow> error + tensor" where
  "ops_subtract = ops_binary (-)"

text \<open>
  \<^verbatim>\<open>ops.einsum(spec, *operands)\<close> for a spec \<^verbatim>\<open>"A,B->C"\<close> or \<^verbatim>\<open>"A->C"\<close> of index
  letters: the entry of the result at an assignment of the letters of \<open>C\<close> is the sum,
  over all assignments of the letters that \<open>C\<close> lacks, of the product of the operands'
  entries.
\<close>

fun split_on :: "char \<Rightarrow> string \<Rightarrow> string list" where
  "split_on c [] = [[]]"
| "split_on c (x # xs) =
     (if x = c then [] # split_on c xs
      else (case split_on c xs of [] \<Rightarrow> [[x]] | w # ws \<Rightarrow> (x # w) # ws))"

text \<open>The number that an association list gives a letter: its extent, or its index.\<close>

definition letter_val :: "(char \<times> nat) list \<Rightarrow> char \<Rightarrow> nat" where
  "letter_val dims c = (case map_of dims c of None \<Rightarrow> 0 | Some n \<Rightarrow> n)"

definition ops_einsum :: "string \<Rightarrow> tensor list \<Rightarrow> error + tensor" where
  "ops_einsum spec operands =
     (let subs = split_on (CHR '','') (takeWhile (\<lambda>c. c \<noteq> CHR ''-'') spec);
          out = drop 2 (dropWhile (\<lambda>c. c \<noteq> CHR ''-'') spec);
          dims = concat (map (\<lambda>(s, t). zip s (shape t)) (zip subs operands));
          summed = remdups (filter (\<lambda>c. c \<notin> set out) (concat subs))
      in if length subs = length operands
            \<and> list_all (\<lambda>(s, t). length s = ndim t) (zip subs operands)
            \<and> list_all (\<lambda>(c, n). letter_val dims c = n) dims
         then Inr (tabulate (map (letter_val dims) out)
                (\<lambda>idx. sum_list (map
                   (\<lambda>vals. prod_list (map
                      (\<lambda>(s, t). lookup t (map (letter_val (zip out idx @ zip summed vals)) s))
                      (zip subs operands)))
                   (product_lists (map (\<lambda>c. [0..<letter_val dims c]) summed)))))
         else Inl (ValueError ''einsum: the operands do not match the subscripts''))"

subsection \<open>\<^verbatim>\<open>rfft\<close>, \<^verbatim>\<open>irfft\<close> and \<^verbatim>\<open>rfft_shift\<close>\<close>

text \<open>Reading an attribute of \<^verbatim>\<open>self\<close>.\<close>

fun attr :: "string \<Rightarrow> 'a option \<Rightarrow> error + 'a" where
  "attr nm None = Inl (AttributeError nm)"
| "attr nm (Some v) = Inr v"

definition rfft :: "'o layer \<Rightarrow> tensor \<Rightarrow> error + tensor \<times> tensor" where
  "rfft L x = bindE (attr ''transpose_op'' (transpose_op L)) (\<lambda>tr. Inr (rfft_fn L (tr x)))"

definition irfft :: "'o layer \<Rightarrow> tensor \<times> tensor \<Rightarrow> error + tensor" where
  "irfft L inputs =
     (let y_real = irfft_fn L inputs
      in bindE (attr ''inverse_transpose_op'' (inverse_transpose_op L)) (\<lambda>itr. Inr (itr y_real)))"

text \<open>
  \<^verbatim>\<open>for a, m in zip(range(len(self.modes), shape - 1), self.modes):
      inputs = ops.roll(inputs, shift=-m // 2, axis=a)\<close>
  where \<^verbatim>\<open>shape\<close> is the number of axes of the input. Python reads \<^verbatim>\<open>-m // 2\<close> as
  \<^verbatim>\<open>(-m) // 2\<close>, rounding down.
\<close>

definition rfft_shift_axes :: "'o layer \<Rightarrow> nat \<Rightarrow> (nat \<times> int) list" where
  "rfft_shift_axes L nd = zip [length (modes L)..<nd - 1] (modes L)"

definition rfft_shift :: "'o layer \<Rightarrow> tensor \<Rightarrow> tensor" where
  "rfft_shift L inputs =
     foldl (\<lambda>x (a, m). ops_roll ((- m) div 2) a x) inputs (rfft_shift_axes L (ndim inputs))"

subsection \<open>\<^verbatim>\<open>call\<close>\<close>

text \<open>
  The two mixed components on the tensorflow path (lines 305 and 306) and on the jax
  path (lines 410 and 411), each transcribed from its own line.
\<close>

definition tf_y_hat_real_truncated :: "'o layer \<Rightarrow> tensor \<Rightarrow> tensor \<Rightarrow> error + tensor" where
  "tf_y_hat_real_truncated L x_hat_real_truncated x_hat_imag_truncated =
     bindE (attr ''einsum_op_forward'' (einsum_op_forward L)) (\<lambda>ef.
     bindE (attr ''_real_kernel'' (real_kernel L)) (\<lambda>wr.
     bindE (ops_einsum ef [x_hat_real_truncated, wr]) (\<lambda>a.
     bindE (attr ''_imag_kernel'' (imag_kernel L)) (\<lambda>wi.
     bindE (ops_einsum ef [x_hat_imag_truncated, wi]) (\<lambda>b.
     ops_subtract a b)))))"

definition tf_y_hat_imag_truncated :: "'o layer \<Rightarrow> tensor \<Rightarrow> tensor \<Rightarrow> error + tensor" where
  "tf_y_hat_imag_truncated L x_hat_real_truncated x_hat_imag_truncated =
     bindE (attr ''einsum_op_forward'' (einsum_op_forward L)) (\<lambda>ef.
     bindE (attr ''_real_kernel'' (real_kernel L)) (\<lambda>wr.
     bindE (ops_einsum ef [x_hat_real_truncated, wr]) (\<lambda>a.
     bindE (attr ''_imag_kernel'' (imag_kernel L)) (\<lambda>wi.
     bindE (ops_einsum ef [x_hat_imag_truncated, wi]) (\<lambda>b.
     ops_subtract a b)))))"

definition jax_y_hat_real_truncated :: "'o layer \<Rightarrow> tensor \<Rightarrow> tensor \<Rightarrow> error + tensor" where
  "jax_y_hat_real_truncated L x_hat_real_reduced x_hat_imag_reduced =
     bindE (attr ''einsum_op_forward'' (einsum_op_forward L)) (\<lambda>ef.
     bindE (attr ''_real_kernel'' (real_kernel L)) (\<lambda>wr.
     bindE (ops_einsum ef [x_hat_real_reduced, wr]) (\<lambda>a.
     bindE (attr ''_imag_kernel'' (imag_kernel L)) (\<lambda>wi.
     bindE (ops_einsum ef [x_hat_imag_reduced, wi]) (\<lambda>b.
     ops_subtract a b)))))"

definition jax_y_hat_imag_truncated :: "'o layer \<Rightarrow> tensor \<Rightarrow> tensor \<Rightarrow> error + tensor" where
  "jax_y_hat_imag_truncated L x_hat_real_reduced x_hat_imag_reduced =
     bindE (attr ''einsum_op_forward'' (einsum_op_forward L)) (\<lambda>ef.
     bindE (attr ''_real_kernel'' (real_kernel L)) (\<lambda>wr.
     bindE (ops_einsum ef [x_hat_real_reduced, wr]) (\<lambda>a.
     bindE (attr ''_imag_kernel'' (imag_kernel L)) (\<lambda>wi.
     bindE (ops_einsum ef [x_hat_imag_reduced, wi]) (\<lambda>b.
     ops_subtract a b)))))"

text \<open>
  Lines 308 to 318 (and 413 to 423, which read the same): pad the two mixed components,
  add the bias if there is one, and shift. The result is what enters \<^verbatim>\<open>self.irfft\<close>.
\<close>

definition pad_bias_shift :: "'o layer \<Rightarrow> tensor \<Rightarrow> tensor \<Rightarrow> error + tensor \<times> tensor" where
  "pad_bias_shift L y_hat_real_truncated y_hat_imag_truncated =
     bindE (attr ''pad_width'' (pad_width L)) (\<lambda>pw.
       let y_hat_real = ops_pad pw y_hat_real_truncated;
           y_hat_imag = ops_pad pw y_hat_imag_truncated
       in bindE (if use_bias L
                 then bindE (attr ''bias'' (bias L)) (\<lambda>b.
                      bindE (ops_add y_hat_real b) (\<lambda>yr.
                      bindE (ops_add y_hat_imag b) (\<lambda>yi. Inr (yr, yi))))
                 else Inr (y_hat_real, y_hat_imag))
            (\<lambda>(yr, yi). Inr (rfft_shift L yr, rfft_shift L yi)))"

text \<open>Lines 295 to 303 (and 400 to 408): transform, shift, and keep the leading modes.\<close>

definition x_hat_truncated :: "'o layer \<Rightarrow> tensor \<Rightarrow> error + tensor \<times> tensor" where
  "x_hat_truncated L inputs =
     bindE (rfft L inputs) (\<lambda>(x_hat_real, x_hat_imag).
       let x_hat_real = rfft_shift L x_hat_real;
           x_hat_imag = rfft_shift L x_hat_imag
       in bindE (attr ''mode_truncation_slice'' (mode_truncation_slice L)) (\<lambda>sl.
            Inr (getitem sl x_hat_real, getitem sl x_hat_imag)))"

text \<open>
  The gradient function that the tensorflow path registers (lines 323 to 378). It
  closes over the truncated coefficients of the forward pass.
\<close>

definition backprop ::
  "'o layer \<Rightarrow> tensor \<Rightarrow> tensor \<Rightarrow> tensor \<Rightarrow> error + tensor \<times> tensor list" where
  "backprop L x_hat_real_truncated x_hat_imag_truncated dy =
     bindE (x_hat_truncated L dy) (\<lambda>(dy_hat_real_truncated, dy_hat_imag_truncated).
     bindE (attr ''einsum_op_backprop_weights'' (einsum_op_backprop_weights L)) (\<lambda>ew.
     bindE (ops_einsum ew [dy_hat_real_truncated, x_hat_real_truncated]) (\<lambda>a1.
     bindE (ops_einsum ew [dy_hat_imag_truncated, x_hat_imag_truncated]) (\<lambda>a2.
     bindE (ops_add a1 a2) (\<lambda>dw_real.
     bindE (ops_einsum ew [dy_hat_real_truncated, x_hat_imag_truncated]) (\<lambda>b1.
     bindE (ops_einsum ew [dy_hat_imag_truncated, x_hat_real_truncated]) (\<lambda>b2.
     bindE (ops_subtract b1 b2) (\<lambda>dw_imag.
     bindE (if use_bias L
            then bindE (attr ''einsum_op_backprop_bias'' (einsum_op_backprop_bias L)) (\<lambda>eb.
                 bindE (ops_add dy_hat_real_truncated dy_hat_imag_truncated) (\<lambda>s.
                 bindE (ops_einsum eb [s]) (\<lambda>db. Inr [db])))
            else Inr []) (\<lambda>db.
     bindE (attr ''einsum_op_backprop_x'' (einsum_op_backprop_x L)) (\<lambda>ex.
     bindE (attr ''_real_kernel'' (real_kernel L)) (\<lambda>wr.
     bindE (attr ''_imag_kernel'' (imag_kernel L)) (\<lambda>wi.
     bindE (ops_einsum ex [dy_hat_real_truncated, wr]) (\<lambda>c1.
     bindE (ops_einsum ex [dy_hat_imag_truncated, wi]) (\<lambda>c2.
     bindE (ops_add c1 c2) (\<lambda>dx_hat_real_truncated.
     bindE (ops_einsum ex [dy_hat_imag_truncated, wr]) (\<lambda>d1.
     bindE (ops_einsum ex [dy_hat_real_truncated, wi]) (\<lambda>d2.
     bindE (ops_subtract d1 d2) (\<lambda>dx_hat_imag_truncated.
     bindE (attr ''pad_width'' (pad_width L)) (\<lambda>pw.
       let dx_hat_real = rfft_shift L (ops_pad pw dx_hat_real_truncated);
           dx_hat_imag = rfft_shift L (ops_pad pw dx_hat_imag_truncated)
       in bindE (irfft L (dx_hat_real, dx_hat_imag)) (\<lambda>dx.
            Inr (dx, db @ [dw_real, dw_imag])))))))))))))))))))))"

text \<open>
  The function under \<^verbatim>\<open>@ops.custom_gradient\<close> (lines 279 to 380): the output and
  the gradient function.
\<close>

definition forward ::
  "'o layer \<Rightarrow> tensor \<Rightarrow> error + tensor \<times> (tensor \<Rightarrow> error + tensor \<times> tensor list)" where
  "forward L inputs =
     bindE (x_hat_truncated L inputs) (\<lambda>(x_hat_real_truncated, x_hat_imag_truncated).
     bindE (tf_y_hat_real_truncated L x_hat_real_truncated x_hat_imag_truncated) (\<lambda>yrt.
     bindE (tf_y_hat_imag_truncated L x_hat_real_truncated x_hat_imag_truncated) (\<lambda>yit.
     bindE (pad_bias_shift L yrt yit) (\<lambda>(y_hat_real, y_hat_imag).
     bindE (irfft L (y_hat_real, y_hat_imag)) (\<lambda>y.
       Inr (y, backprop L x_hat_real_truncated x_hat_imag_truncated))))))"

definition call_jax :: "'o layer \<Rightarrow> tensor \<Rightarrow> error + tensor" where
  "call_jax L inputs =
     bindE (x_hat_truncated L inputs) (\<lambda>(x_hat_real_reduced, x_hat_imag_reduced).
     bindE (jax_y_hat_real_truncated L x_hat_real_reduced x_hat_imag_reduced) (\<lambda>yrt.
     bindE (jax_y_hat_imag_truncated L x_hat_real_reduced x_hat_imag_reduced) (\<lambda>yit.
     bindE (pad_bias_shift L yrt yit) (\<lambda>(y_hat_real, y_hat_imag).
       irfft L (y_hat_real, y_hat_imag)))))"

definition call :: "('i, 'o, 'c) keras \<Rightarrow> 'o layer \<Rightarrow> tensor \<Rightarrow> error + tensor" where
  "call K L inputs =
     (if backend K = ''tensorflow'' then bindE (forward L inputs) (\<lambda>(y, grad). Inr y)
      else if backend K = ''jax'' then call_jax L inputs
      else Inl (NotImplementedError
        ''The call method is only implemented for keras backends tensorflow and jax''))"

text \<open>\<^verbatim>\<open>compute_output_shape\<close>: the channel axis is replaced by \<^verbatim>\<open>self.filters\<close>.\<close>

definition compute_output_shape :: "'o layer \<Rightarrow> input_shape \<Rightarrow> error + input_shape" where
  "compute_output_shape L input_shape =
     (if data_format L = ''channels_last''
      then (if input_shape = [] then Inl (IndexError ''list assignment index out of range'')
            else Inr (butlast input_shape @ [filters L]))
      else (if length input_shape < 2 then Inl (IndexError ''list assignment index out of range'')
            else Inr (input_shape[1 := filters L])))"

subsection \<open>\<^verbatim>\<open>get_config\<close> and \<^verbatim>\<open>from_config\<close>\<close>

text \<open>\<^verbatim>\<open>config.update({...})\<close> with the ten entries of lines 473 to 482.\<close>

definition get_config :: "('i, 'o, 'c) keras \<Rightarrow> 'o layer \<Rightarrow> ('o, 'c) config" where
  "get_config K L =
     (layer_get_config K (name L))
       (''filters'' \<mapsto> CInt (filters L),
        ''modes'' \<mapsto> CTuple (modes L),
        ''data_format'' \<mapsto> CStr (data_format L),
        ''use_bias'' \<mapsto> CBool (use_bias L),
        ''kernel_initializer'' \<mapsto> CSerialized (initializers_serialize K (kernel_initializer L)),
        ''bias_initializer'' \<mapsto> CSerialized (initializers_serialize K (bias_initializer L)),
        ''kernel_constraint'' \<mapsto> CSerialized (constraints_serialize K (kernel_constraint L)),
        ''bias_constraint'' \<mapsto> CSerialized (constraints_serialize K (bias_constraint L)),
        ''kernel_regularizer'' \<mapsto> CSerialized (regularizers_serialize K (kernel_regularizer L)),
        ''bias_regularizer'' \<mapsto> CSerialized (regularizers_serialize K (bias_regularizer L)))"

text \<open>\<^verbatim>\<open>config.pop(key)\<close>: the value and the dictionary without the key, or \<^verbatim>\<open>KeyError\<close>.\<close>

definition dict_pop :: "(string \<rightharpoonup> 'v) \<Rightarrow> string \<Rightarrow> error + 'v \<times> (string \<rightharpoonup> 'v)" where
  "dict_pop d k = (case d k of None \<Rightarrow> Inl (KeyError k) | Some v \<Rightarrow> Inr (v, d(k := None)))"

text \<open>A \<^verbatim>\<open>deserialize\<close> function applied to a popped entry.\<close>

fun deserialized :: "('c \<Rightarrow> 'o) \<Rightarrow> ('o, 'c) cfg_value \<Rightarrow> ('o, 'c) cfg_value" where
  "deserialized f (CSerialized c) = CObject (f c)"
| "deserialized f v = v"

text \<open>
  \<^verbatim>\<open>from_config(cls, config)\<close> (lines 505 to 521); \<open>cls\<close> is the constructor of the
  class it is called on, applied to the keyword arguments.
\<close>

definition from_config ::
  "('i, 'o, 'c) keras \<Rightarrow> (('o, 'c) config \<Rightarrow> error + 'o layer) \<Rightarrow> ('o, 'c) config \<Rightarrow>
   error + 'o layer" where
  "from_config K cls config =
     bindE (dict_pop config ''kernel_initialzer'')
       (\<lambda>(kernel_initializer_cfg, c1).
     bindE (dict_pop c1 ''bias_initialzer'')
       (\<lambda>(bias_initializer_cfg, c2).
     bindE (dict_pop c2 ''kernel_constraint'')
       (\<lambda>(kernel_constraint_cfg, c3).
     bindE (dict_pop c3 ''bias_constraint'')
       (\<lambda>(bias_constraint_cfg, c4).
     bindE (dict_pop c4 ''kernel_regularizer'')
       (\<lambda>(kernel_regularizer_cfg, c5).
     bindE (dict_pop c5 ''bias_regularizer'')
       (\<lambda>(bias_regularizer_cfg, c6).
       cls (c6
         (''kernel_initializer'' \<mapsto>
            deserialized (initializers_deserialize K) kernel_initializer_cfg,
          ''bias_initializer'' \<mapsto>
            deserialized (initializers_deserialize K) bias_initializer_cfg,
          ''kernel_constraint'' \<mapsto>
            deserialized (constraints_deserialize K) kernel_constraint_cfg,
          ''bias_constraint'' \<mapsto>
            deserialized (constraints_deserialize K) bias_constraint_cfg,
          ''kernel_regularizer'' \<mapsto>
            deserialized (regularizers_deserialize K) kernel_regularizer_cfg,
          ''bias_regularizer'' \<mapsto>
            deserialized (regularizers_deserialize K) bias_regularizer_cfg))))))))"

subsection \<open>The transforms of \<^verbatim>\<open>keras_addon.ops.fft\<close>\<close>

text \<open>
  Modelled from the spec: the functions \<^verbatim>\<open>rfft\<close>, \<^verbatim>\<open>rfft2\<close>, \<^verbatim>\<open>rfft3\<close> and
  \<^verbatim>\<open>irfft\<close>, \<^verbatim>\<open>irfft2\<close>, \<^verbatim>\<open>irfft3\<close> of the module \<^verbatim>\<open>keras_addon.ops.fft\<close>, which
  is not among the sources. The spec describes the forward transform as the real-to-complex
  discrete Fourier transform along the trailing \<open>r\<close> axes, returned as real and imaginary
  parts, where the last transformed axis has length \<open>extent div 2 + 1\<close> and the other
  axes keep their length; and the inverse as the complex-to-real transform along the
  same axes that undoes it. The spec leaves the scaling open: the forward transform is
  taken unscaled and the inverse divides by the number of points, and the inverse returns
  the even length \<open>2 * (m - 1)\<close> along its last axis.
\<close>

definition dft_angle :: "nat list \<Rightarrow> nat list \<Rightarrow> nat list \<Rightarrow> real" where
  "dft_angle ns k j =
     2 * pi * sum_list (map (\<lambda>(n, k', j'). real (k' * j') / real n) (zip ns (zip k j)))"

definition rfftn :: "nat \<Rightarrow> tensor \<Rightarrow> tensor \<times> tensor" where
  "rfftn r x =
     (let sh = shape x;
          l = length sh - r;
          ns = drop l sh;
          out = take l sh @ butlast ns @ [last ns div 2 + 1];
          part = (\<lambda>g. tabulate out (\<lambda>idx. sum_list (map
                    (\<lambda>j. lookup x (take l idx @ j) * g (dft_angle ns (drop l idx) j))
                    (product_lists (map (\<lambda>n. [0..<n]) ns)))))
      in (part cos, part (\<lambda>a. - sin a)))"

definition irfftn :: "nat \<Rightarrow> tensor \<times> tensor \<Rightarrow> tensor" where
  "irfftn r inputs =
     (let re = fst inputs; im = snd inputs;
          sh = shape re;
          l = length sh - r;
          ms = drop l sh;
          m = last ms;
          ns = butlast ms @ [2 * (m - 1)];
          weight = (\<lambda>k. if last k = 0 \<or> last k = m - 1 then 1 else 2 :: real)
      in tabulate (take l sh @ ns) (\<lambda>idx. sum_list (map
           (\<lambda>k. weight k *
                (lookup re (take l idx @ k) * cos (dft_angle ns k (drop l idx))
                 - lookup im (take l idx @ k) * sin (dft_angle ns k (drop l idx))))
           (product_lists (map (\<lambda>n. [0..<n]) ms))) / real (prod_list ns)))"

subsection \<open>An instance of the Keras parameters\<close>

text \<open>
  For the closed examples below: identifiers, objects and serialized objects are optional
  names, and the \<^verbatim>\<open>get\<close>, \<^verbatim>\<open>serialize\<close> and \<^verbatim>\<open>deserialize\<close> functions hand them on.
  \<^verbatim>\<open>standardize_data_format\<close> accepts the two layout names and defaults to
  \<^verbatim>\<open>channels_last\<close>; \<^verbatim>\<open>Layer.get_config\<close> returns the name and the trainable flag;
  the initializer \<^verbatim>\<open>ones\<close> fills a variable with ones and every other one with
  zeros.
\<close>

definition keras_instance ::
  "string \<Rightarrow> (string option, string option, string option) keras" where
  "keras_instance be =
     \<lparr> backend = be,
       layer_get_config = (\<lambda>nm. [''name'' \<mapsto> CName nm, ''trainable'' \<mapsto> CBool True]),
       standardize_data_format =
         (\<lambda>d. case d of
                 None \<Rightarrow> Inr ''channels_last''
               | Some f \<Rightarrow> if f = ''channels_last'' \<or> f = ''channels_first'' then Inr f
                           else Inl (ValueError ''The data_format argument is not a layout'')),
       initializers_get = (\<lambda>i. i),
       regularizers_get = (\<lambda>i. i),
       constraints_get = (\<lambda>i. i),
       initializers_serialize = (\<lambda>i. i),
       regularizers_serialize = (\<lambda>i. i),
       constraints_serialize = (\<lambda>i. i),
       initializers_deserialize = (\<lambda>i. i),
       regularizers_deserialize = (\<lambda>i. i),
       constraints_deserialize = (\<lambda>i. i),
       fft_forward = [''rfft'' \<mapsto> rfftn 1, ''rfft2'' \<mapsto> rfftn 2, ''rfft3'' \<mapsto> rfftn 3],
       fft_inverse = [''irfft'' \<mapsto> irfftn 1, ''irfft2'' \<mapsto> irfftn 2, ''irfft3'' \<mapsto> irfftn 3],
       initial_value = (\<lambda>ini shp. tabulate shp (\<lambda>idx. if ini = Some ''ones'' then 1 else 0)) \<rparr>"

text \<open>
  \<^verbatim>\<open>BaseSpectralConv(rank, filters, modes, data_format, use_bias,
  kernel_initializer="ones", bias_initializer="ones")\<close> on a backend.
\<close>

definition spectral_conv ::
  "string \<Rightarrow> nat \<Rightarrow> int option \<Rightarrow> int list \<Rightarrow> string option \<Rightarrow> bool \<Rightarrow>
   error + string option layer" where
  "spectral_conv be r f ms df ub =
     init (keras_instance be) r f (ModesSeq ms) df ub (Some ''ones'') (Some ''ones'')
       None None None None None"

text \<open>The layer that \<^verbatim>\<open>build(input_shape)\<close> leaves behind, on the same instance.\<close>

definition built_layer ::
  "string \<Rightarrow> nat \<Rightarrow> int option \<Rightarrow> int list \<Rightarrow> bool \<Rightarrow> input_shape \<Rightarrow> string option layer" where
  "built_layer be r f ms ub shp =
     snd (build (keras_instance be) (projr (spectral_conv be r f ms None ub)) shp)"

text \<open>
  Four built layers: rank 1 with two input channels, rank 3, rank 2 without bias, and
  rank 1 on the tensorflow backend. Each has one filter and two modes per axis.
\<close>

definition conv1d_two_channels :: "string option layer" where
  "conv1d_two_channels = built_layer ''jax'' 1 (Some 1) [2] True [None, Some 4, Some 2]"

definition conv3d :: "string option layer" where
  "conv3d =
     built_layer ''jax'' 3 (Some 1) [2, 2, 2] True [None, Some 2, Some 3, Some 2, Some 1]"

definition conv2d_no_bias :: "string option layer" where
  "conv2d_no_bias = built_layer ''jax'' 2 (Some 1) [2, 2] False [None, Some 4, Some 4, Some 1]"

definition conv1d_tf :: "string option layer" where
  "conv1d_tf = built_layer ''tensorflow'' 1 (Some 1) [2] True [None, Some 8, Some 1]"

text \<open>
  The block under the guard of line 175, run on a layer: it stores the three backprop
  contractions. And a trained instance of the rank-1 tensorflow layer with two modes,
  built on an input of shape \<open>(None, 4, 1)\<close>: the optimizer has moved the second entry
  of the real kernel to \<open>w\<close>, and the backprop contractions are stored.
\<close>

definition with_backprop_specs :: "'o layer \<Rightarrow> 'o layer" where
  "with_backprop_specs L =
     (let d = einsum_dim (modes L)
      in L\<lparr>einsum_op_backprop_weights := Some (''bo'' @ d @ '',bi'' @ d @ ''->io'' @ d),
           einsum_op_backprop_x := Some (''bo'' @ d @ '',io'' @ d @ ''->bi'' @ d),
           einsum_op_backprop_bias := Some (''bo'' @ d @ ''->o'')\<rparr>)"

definition conv1d_tf_trained :: "real \<Rightarrow> string option layer" where
  "conv1d_tf_trained w =
     with_backprop_specs
       ((built_layer ''tensorflow'' 1 (Some 1) [2] False [None, Some 4, Some 1])
          \<lparr>real_kernel := Some (Arr [Arr [Arr [Scal 1, Scal w]]])\<rparr>)"

text \<open>The sum of the products of the entries of two tensors of one shape.\<close>

primrec entries :: "tensor \<Rightarrow> real list" where
  "entries (Scal x) = [x]"
| "entries (Arr ts) = concat (map entries ts)"

definition inner :: "tensor \<Rightarrow> tensor \<Rightarrow> real" where
  "inner a b = sum_list (map2 (*) (entries a) (entries b))"

subsection \<open>The contraction in the words of the spec\<close>

text \<open>
  Section 4.1 of the spec: the contraction of coefficients \<open>(batch, inChannel, modes)\<close>
  with a kernel \<open>(inChannel, outChannel, modes)\<close> sums over the input channels, shares
  the mode indices, and is indexed by batch, output channel and modes.
\<close>

definition spec_contract :: "tensor \<Rightarrow> tensor \<Rightarrow> tensor" where
  "spec_contract x w =
     tabulate (shape x ! 0 # shape w ! 1 # drop 2 (shape x))
       (\<lambda>idx. \<Sum>i\<leftarrow>[0..<shape x ! 1].
                 lookup x (idx ! 0 # i # drop 2 idx) * lookup w (i # idx ! 1 # drop 2 idx))"

subsection \<open>The padding plan in the words of the spec\<close>

text \<open>
  Section 4.1 of the spec: for each spatial axis except the last, the pad width is
  \<open>extent - mode\<close>; for the last spatial axis it is \<open>extent div 2 + 1 - mode\<close>.
\<close>

definition spec_pad_widths :: "int list \<Rightarrow> int list \<Rightarrow> int list" where
  "spec_pad_widths ms ss =
     map (\<lambda>i. if i = length ss - 1 then ss ! i div 2 + 1 - ms ! i else ss ! i - ms ! i)
       [0..<length ss]"

section \<open>Properties\<close>

subsection \<open>Construction\<close>

lemmas construct =
  spectral_conv_def init_def keras_instance_def fft_name_def py_all_def string_of_nat.simps
  positive_tuple_def

lemma py_all_iff: "py_all ms = (0 \<notin> set ms)"
  by (induction ms) (auto simp: py_all_def)

text \<open>
  What \<^verbatim>\<open>standardize_tuple\<close> (line 34) lets through: the tuple that was given, of the
  length of the rank, and all of its entries positive.
\<close>

lemma standardize_tuple_Inr:
  "standardize_tuple m r = Inr ms \<Longrightarrow>
   ms = given_modes m r \<and> length ms = r \<and> (\<forall>x\<in>set ms. 0 < x)"
  by (cases m) (auto simp: positive_tuple_def list_ex_iff split: if_splits)

lemma standardize_tuple_rejects:
  "\<exists>v\<in>set (given_modes m r). v \<le> 0 \<Longrightarrow> \<exists>msg. standardize_tuple m r = Inl (ValueError msg)"
  by (cases m) (auto simp: positive_tuple_def list_ex_iff)




text \<open>
  With a zero mode as well, the error is the one of \<^verbatim>\<open>standardize_tuple\<close>: the modes
  are checked before the filters.
\<close>

lemma init_modes_checked_first:
  "\<exists>msg. spectral_conv ''jax'' 1 (Some 0) [0] (Some ''channels_first'') True = Inl (ValueError msg)
     \<and> msg \<noteq> ''Invalid value for argument filters. Expected a strictly positive value.''"
  by (simp add: construct)

text \<open>
  C10, as amended. The positivity check is skipped for \<^verbatim>\<open>filters=None\<close>: whenever
  \<^verbatim>\<open>standardize_tuple\<close> accepts the modes and the data format is not
  \<^verbatim>\<open>channels_first\<close>, construction succeeds with \<^verbatim>\<open>filters=None\<close>, and the layer keeps
  \<^verbatim>\<open>None\<close> and the modes. There is no second gap: the modes of a constructed layer are
  all positive, and for modes with a zero or a negative entry construction raises
  \<^verbatim>\<open>ValueError\<close> at line 34, whatever the filters are.
\<close>

theorem init_acceptance_gaps:
  assumes "standardize_data_format K d = Inr df"
    and "fft_forward K (fft_name ''rfft'' r) = Some rf"
    and "fft_inverse K (fft_name ''irfft'' r) = Some irf"
    and "df \<noteq> ''channels_first''"
    and "standardize_tuple m r = Inr ms"
  shows "(\<exists>L. init K r None m d ub ki bi kc bc kr br nm = Inr L \<and> filters L = None \<and> modes L = ms)
       \<and> (\<forall>x\<in>set ms. 0 < x)
       \<and> ((\<exists>v\<in>set (given_modes m' r). v \<le> 0) \<longrightarrow>
            (\<exists>msg. init K r f m' d ub ki bi kc bc kr br nm = Inl (ValueError msg)))"
proof -
  have a: "\<forall>x\<in>set ms. 0 < x" using standardize_tuple_Inr [OF assms(5)] by simp
  then have "0 \<notin> set ms" by auto
  then have b: "\<exists>L. init K r None m d ub ki bi kc bc kr br nm = Inr L \<and> filters L = None \<and> modes L = ms"
    using assms by (auto simp: init_def py_all_iff)
  have c: "\<exists>msg. init K r f m' d ub ki bi kc bc kr br nm = Inl (ValueError msg)"
    if "\<exists>v\<in>set (given_modes m' r). v \<le> 0"
    using standardize_tuple_rejects [OF that] by (auto simp: init_def)
  from a b c show ?thesis by blast
qed

theorem init_acceptance_gaps_witness:
  "(\<exists>L. spectral_conv ''jax'' 2 None [4, 3] None True = Inr L \<and> filters L = None
      \<and> modes L = [4, 3])
   \<and> (\<exists>msg. spectral_conv ''jax'' 2 None [- 4, 3] None True = Inl (ValueError msg))"
proof -
  let ?K = "keras_instance ''jax'' :: (string option, string option, string option) keras"
  have e: "standardize_data_format ?K None = Inr ''channels_last''"
    "fft_forward ?K (fft_name ''rfft'' 2) = Some (rfftn 2)"
    "fft_inverse ?K (fft_name ''irfft'' 2) = Some (irfftn 2)"
    "''channels_last'' \<noteq> ''channels_first''"
    "standardize_tuple (ModesSeq [4, 3]) 2 = Inr [4, 3]"
    by (simp_all add: keras_instance_def fft_name_def string_of_nat.simps positive_tuple_def)
  from init_acceptance_gaps [OF e, of True "Some ''ones''" "Some ''ones''" None None None None None "ModesSeq [- 4, 3]" None]
  show ?thesis by (simp add: spectral_conv_def)
qed

text \<open>
  C10 as stated fails for negative modes:
  \<^verbatim>\<open>BaseSpectralConv(rank=2, filters=None, modes=(-4, 3))\<close> does not succeed, it raises
  \<^verbatim>\<open>ValueError\<close> in \<^verbatim>\<open>standardize_tuple\<close> (line 34), before the check of line 55 is
  reached.
\<close>

theorem init_negative_modes_rejected:
  "spectral_conv ''jax'' 2 None [- 4, 3] None True =
     Inl (ValueError ''The modes argument must be a tuple of integers, including values that do not satisfy value > 0'')"
  by (simp add: construct)

subsection \<open>Build\<close>

lemma pad_entries_Some:
  "length ms = length ss \<Longrightarrow>
   pad_entries i n (zip ms (map Some ss)) =
     Inr (map (\<lambda>k. (0, if int (i + k) = int n - 1 then ss ! k div 2 + 1 - ms ! k
                          else ss ! k - ms ! k)) [0..<length ss])"
proof (induction ms ss arbitrary: i rule: list_induct2)
  case Nil
  then show ?case by simp
next
  case (Cons m ms s ss)
  have "[0..<length (s # ss)] = 0 # map Suc [0..<length ss]"
    by (simp add: upt_conv_Cons map_Suc_upt del: upt_Suc)
  then show ?case using Cons.IH [of "Suc i"]
    by (simp add: o_def del: upt_Suc)
qed

lemma pad_entries_spec:
  assumes "length ms = length ss"
  shows "pad_entries 0 (length ms) (zip ms (map Some ss)) =
    Inr (map (Pair 0) (spec_pad_widths ms ss))"
proof -
  have "(int k = int (length ss) - 1) = (k = length ss - 1)" if "k < length ss" for k
    using that by auto
  then show ?thesis
    unfolding pad_entries_Some [OF assms] spec_pad_widths_def using assms
    by (auto simp: o_def)
qed

lemma filter_negative_pad:
  "(filter (\<lambda>x. tuple_less x (0, 0)) ((0, 0) # (0, 0) # map (Pair 0) ps) \<noteq> []) =
   (\<exists>p\<in>set ps. p < 0)"
  by (induction ps) auto

lemma build_rest_spec:
  assumes "length (modes L) = length spatial"
  shows "build_rest K L ca c axes shp (map Some spatial @ [c']) =
     (let pw = (0, 0) # (0, 0) # map (Pair 0) (spec_pad_widths (modes L) spatial);
          L1 = L\<lparr>pad_width := Some pw\<rparr>
      in if \<exists>p\<in>set (spec_pad_widths (modes L) spatial). p < 0
         then (Some (ValueError ''Too many modes for input shape!''), L1)
         else and_then (build_weights K (L1\<lparr>input_spec := Some (rank L + 2, ca, c)\<rparr>) c)
                (\<lambda>L5. build_finish L5 axes shp))"
proof -
  have z: "zip (modes L) (map Some spatial @ [c']) = zip (modes L) (map Some spatial)"
    using assms by (simp add: zip_append2)
  have p: "pad_entries 0 (length (modes L)) (zip (modes L) (map Some spatial)) =
      Inr (map (Pair 0) (spec_pad_widths (modes L) spatial))"
    by (rule pad_entries_spec [OF assms])
  show ?thesis
    unfolding build_rest_def z p
    by (simp add: Let_def filter_negative_pad del: filter.simps)
qed

lemma build_channels_last:
  assumes "\<not> built L" and "data_format L = ''channels_last''"
    and "length (modes L) = length spatial"
  shows "build K L (b # map Some spatial @ [c]) =
     (let pw = (0, 0) # (0, 0) # map (Pair 0) (spec_pad_widths (modes L) spatial);
          n = length spatial + 2;
          L1 = L\<lparr>transpose_op :=
                   Some (ops_transpose (insert_at_1 (last [0..<n]) (butlast [0..<n]))),
                 inverse_transpose_op :=
                   Some (ops_transpose (without_1 [0..<n] @ [[0..<n] ! 1]))\<rparr>
      in if \<exists>p\<in>set (spec_pad_widths (modes L) spatial). p < 0
         then (Some (ValueError ''Too many modes for input shape!''), L1\<lparr>pad_width := Some pw\<rparr>)
         else and_then
                (build_weights K
                   (L1\<lparr>pad_width := Some pw, input_spec := Some (rank L + 2, - 1, c)\<rparr>) c)
                (\<lambda>L5. build_finish L5 (Some [0..<n]) (b # map Some spatial @ [c])))"
proof -
  let ?n = "length spatial + 2"
  let ?L1 = "L\<lparr>transpose_op :=
                   Some (ops_transpose (insert_at_1 (last [0..<?n]) (butlast [0..<?n]))),
                 inverse_transpose_op :=
                   Some (ops_transpose (without_1 [0..<?n] @ [[0..<?n] ! 1]))\<rparr>"
  have m: "length (modes ?L1) = length spatial" using assms(3) by simp
  have "build K L (b # map Some spatial @ [c]) =
      build_rest K ?L1 (- 1) c (Some [0..<?n]) (b # map Some spatial @ [c])
        (map Some spatial @ [c])"
    using assms(1,2) by (simp add: build_def Let_def del: upt_Suc)
  also note build_rest_spec [OF m]
  finally show ?thesis by (simp add: Let_def del: upt_Suc)
qed

lemma build_finish_ok:
  "2 \<le> length ax \<Longrightarrow> \<exists>L'. build_finish L (Some ax) shp = (None, L') \<and> built L' \<and>
      weights L' = weights L \<and> pad_width L' = pad_width L \<and> bias L' = bias L
      \<and> real_kernel L' = real_kernel L \<and> imag_kernel L' = imag_kernel L
      \<and> einsum_op_backprop_weights L' = einsum_op_backprop_weights L
      \<and> einsum_op_backprop_x L' = einsum_op_backprop_x L
      \<and> einsum_op_backprop_bias L' = einsum_op_backprop_bias L
      \<and> transpose_op L' = transpose_op L \<and> inverse_transpose_op L' = inverse_transpose_op L
      \<and> mode_truncation_slice L' = Some (None # None # map Some (modes L))
      \<and> einsum_op_forward L' =
          Some (''bi'' @ einsum_dim (modes L) @ '',io'' @ einsum_dim (modes L) @ ''->bo''
                @ einsum_dim (modes L))
      \<and> use_bias L' = use_bias L \<and> modes L' = modes L \<and> rank L' = rank L
      \<and> filters L' = filters L"
  by (cases ax; cases "tl ax") (auto simp: build_finish_def Let_def function_eq_string_def)

lemma add_weight_known:
  assumes "\<forall>d\<in>set shp. \<exists>n. d = Some n \<and> 0 \<le> n"
  shows "add_weight K nm shp ini =
     Inr (initial_value K ini (map (\<lambda>d. case d of None \<Rightarrow> 0 | Some n \<Rightarrow> nat n) shp))"
proof -
  have "\<not> list_ex (\<lambda>d. case d of None \<Rightarrow> False | Some n \<Rightarrow> n < 0) shp"
    using assms by (fastforce simp: list_ex_iff)
  moreover have "\<not> list_ex (\<lambda>d. d = None) shp"
    using assms by (fastforce simp: list_ex_iff)
  ultimately show ?thesis by (simp add: add_weight_def)
qed

lemma add_weight_unknown:
  assumes "\<not> (\<forall>d\<in>set shp. \<exists>n. d = Some n \<and> 0 \<le> n)"
  shows "add_weight K nm shp ini = Inl (ValueError ''Negative dimensions are not allowed'')
       \<or> add_weight K nm shp ini =
           Inl (ValueError ''Shapes used to initialize variables must be fully-defined'')"
proof -
  obtain d where d: "d \<in> set shp" "\<forall>n. d = Some n \<longrightarrow> n < 0" using assms by force
  show ?thesis
  proof (cases d)
    case None
    then have "list_ex (\<lambda>d. d = None) shp" using d(1) by (auto simp: list_ex_iff)
    then show ?thesis by (simp add: add_weight_def)
  next
    case (Some n)
    then have "list_ex (\<lambda>d. case d of None \<Rightarrow> False | Some n \<Rightarrow> n < 0) shp"
      using d by (force simp: list_ex_iff)
    then show ?thesis by (simp add: add_weight_def)
  qed
qed

lemma kernel_shape_known:
  "(\<forall>d\<in>set (c # f # map Some ms). \<exists>n. d = Some n \<and> 0 \<le> n) =
   ((\<exists>ch fv. c = Some ch \<and> 0 \<le> ch \<and> f = Some fv \<and> 0 \<le> fv) \<and> (\<forall>m\<in>set ms. 0 \<le> m))"
  by auto

lemma build_weights_error:
  assumes "\<not> ((\<exists>ch f. c = Some ch \<and> 0 \<le> ch \<and> filters L = Some f \<and> 0 \<le> f)
              \<and> (\<forall>m\<in>set (modes L). 0 \<le> m))"
  shows "build_weights K L c = (Some (ValueError ''Negative dimensions are not allowed''), L)
       \<or> build_weights K L c =
           (Some (ValueError ''Shapes used to initialize variables must be fully-defined''), L)"
proof -
  have "\<not> (\<forall>d\<in>set (c # filters L # map Some (modes L)). \<exists>n. d = Some n \<and> 0 \<le> n)"
    using assms unfolding kernel_shape_known .
  from add_weight_unknown [OF this, of K "''real_kernel''" "kernel_initializer L"]
  show ?thesis
    by (auto simp: build_weights_def Let_def add_weight_as_def)
qed

lemma build_weights_ok:
  assumes "c = Some ch" and "0 \<le> ch" and "filters L = Some f" and "0 \<le> f"
    and "\<forall>m\<in>set (modes L). 0 \<le> m"
  shows "\<exists>L'. build_weights K L c = (None, L')
     \<and> map fst (weights L') =
         map fst (weights L) @ (if use_bias L then [''real_kernel'', ''imag_kernel'', ''bias'']
                                else [''real_kernel'', ''imag_kernel''])
     \<and> pad_width L' = pad_width L
     \<and> bias L' =
         (if use_bias L
          then Some (initial_value K (bias_initializer L) (nat f # replicate (rank L) 1))
          else None)
     \<and> use_bias L' = use_bias L \<and> modes L' = modes L \<and> rank L' = rank L
     \<and> filters L' = filters L"
proof -
  have k: "\<forall>d\<in>set (Some ch # Some f # map Some (modes L)). \<exists>n. d = Some n \<and> 0 \<le> n"
    using assms(2,4,5) by auto
  have b: "\<forall>d\<in>set (Some f # replicate (rank L) (Some 1)). \<exists>n. d = Some n \<and> 0 \<le> n"
    using assms(4) by auto
  show ?thesis
    using assms(1,3)
    by (simp add: build_weights_def Let_def add_weight_as_def add_weight_known [OF k]
        add_weight_known [OF b] o_def)
qed

text \<open>
  The condition under which \<^verbatim>\<open>build\<close> gets past the padding plan, and what it leaves
  behind on either side of \<^verbatim>\<open>add_weight\<close>.
\<close>

lemma build_past_padding:
  assumes "\<not> built L" and "data_format L = ''channels_last''"
    and "length (modes L) = length spatial"
    and "\<forall>p\<in>set (spec_pad_widths (modes L) spatial). 0 \<le> p"
  shows "build K L (b # map Some spatial @ [c]) =
      and_then
        (build_weights K
          (L\<lparr>transpose_op :=
               Some (ops_transpose (insert_at_1 (last [0..<length spatial + 2])
                                      (butlast [0..<length spatial + 2]))),
             inverse_transpose_op :=
               Some (ops_transpose (without_1 [0..<length spatial + 2] @
                                      [[0..<length spatial + 2] ! 1])),
             pad_width :=
               Some ((0, 0) # (0, 0) # map (Pair 0) (spec_pad_widths (modes L) spatial)),
             input_spec := Some (rank L + 2, - 1, c)\<rparr>) c)
        (\<lambda>L5. build_finish L5 (Some [0..<length spatial + 2]) (b # map Some spatial @ [c]))"
proof -
  have "\<not> (\<exists>p\<in>set (spec_pad_widths (modes L) spatial). p < 0)" using assms(4) by force
  then show ?thesis
    by (simp add: build_channels_last [OF assms(1-3)] Let_def del: upt_Suc)
qed

lemma build_success:
  assumes "\<not> built L" and "data_format L = ''channels_last''"
    and "length (modes L) = length spatial"
    and "\<forall>p\<in>set (spec_pad_widths (modes L) spatial). 0 \<le> p"
    and "c = Some ch" and "0 \<le> ch" and "filters L = Some f" and "0 \<le> f"
    and "\<forall>m\<in>set (modes L). 0 \<le> m"
  shows "\<exists>L'. build K L (b # map Some spatial @ [c]) = (None, L') \<and> built L'
     \<and> map fst (weights L') =
         map fst (weights L) @ (if use_bias L then [''real_kernel'', ''imag_kernel'', ''bias'']
                                else [''real_kernel'', ''imag_kernel''])
     \<and> pad_width L' =
         Some ((0, 0) # (0, 0) # map (Pair 0) (spec_pad_widths (modes L) spatial))
     \<and> bias L' =
         (if use_bias L
          then Some (initial_value K (bias_initializer L) (nat f # replicate (rank L) 1))
          else None)"
proof -
  let ?n = "length spatial + 2"
  let ?L2 = "L\<lparr>transpose_op :=
           Some (ops_transpose (insert_at_1 (last [0..<?n]) (butlast [0..<?n]))),
         inverse_transpose_op := Some (ops_transpose (without_1 [0..<?n] @ [[0..<?n] ! 1])),
         pad_width := Some ((0, 0) # (0, 0) # map (Pair 0) (spec_pad_widths (modes L) spatial)),
         input_spec := Some (rank L + 2, - 1, c)\<rparr>"
  have f: "filters ?L2 = Some f" and m: "\<forall>m\<in>set (modes ?L2). 0 \<le> m"
    using assms(7,9) by simp_all
  from build_weights_ok [OF assms(5,6) f assms(8) m, of K]
  obtain L3 where L3: "build_weights K ?L2 c = (None, L3)"
    "map fst (weights L3) =
       map fst (weights ?L2) @ (if use_bias ?L2 then [''real_kernel'', ''imag_kernel'', ''bias'']
                                else [''real_kernel'', ''imag_kernel''])"
    "pad_width L3 = pad_width ?L2"
    "bias L3 =
       (if use_bias ?L2
        then Some (initial_value K (bias_initializer ?L2) (nat f # replicate (rank ?L2) 1))
        else None)"
    by blast
  have "2 \<le> length [0..<?n]" by simp
  from build_finish_ok [OF this, of L3 "b # map Some spatial @ [c]"]
  obtain L' where L': "build_finish L3 (Some [0..<?n]) (b # map Some spatial @ [c]) = (None, L')"
    "built L'" "weights L' = weights L3" "pad_width L' = pad_width L3" "bias L' = bias L3"
    by blast
  show ?thesis
    unfolding build_past_padding [OF assms(1-4)] L3(1) and_then.simps L'(1)
    using L'(2-) L3(2-) by simp
qed

lemma build_failure:
  assumes "\<not> built L" and "data_format L = ''channels_last''"
    and "length (modes L) = length spatial"
    and "\<forall>p\<in>set (spec_pad_widths (modes L) spatial). 0 \<le> p"
    and "\<not> ((\<exists>ch f. c = Some ch \<and> 0 \<le> ch \<and> filters L = Some f \<and> 0 \<le> f)
              \<and> (\<forall>m\<in>set (modes L). 0 \<le> m))"
  shows "\<exists>msg L'. build K L (b # map Some spatial @ [c]) = (Some (ValueError msg), L')
     \<and> msg \<noteq> ''Too many modes for input shape!''
     \<and> \<not> built L' \<and> weights L' = weights L
     \<and> pad_width L' =
         Some ((0, 0) # (0, 0) # map (Pair 0) (spec_pad_widths (modes L) spatial))"
proof -
  let ?n = "length spatial + 2"
  let ?L2 = "L\<lparr>transpose_op :=
           Some (ops_transpose (insert_at_1 (last [0..<?n]) (butlast [0..<?n]))),
         inverse_transpose_op := Some (ops_transpose (without_1 [0..<?n] @ [[0..<?n] ! 1])),
         pad_width := Some ((0, 0) # (0, 0) # map (Pair 0) (spec_pad_widths (modes L) spatial)),
         input_spec := Some (rank L + 2, - 1, c)\<rparr>"
  have "\<not> ((\<exists>ch f. c = Some ch \<and> 0 \<le> ch \<and> filters ?L2 = Some f \<and> 0 \<le> f)
              \<and> (\<forall>m\<in>set (modes ?L2). 0 \<le> m))"
    using assms(5) by simp
  from build_weights_error [OF this, of K]
  show ?thesis
    unfolding build_past_padding [OF assms(1-4)]
    using assms(1) by (elim disjE) simp_all
qed

lemma build_too_many_modes:
  assumes "\<not> built L" and "data_format L = ''channels_last''"
    and "length (modes L) = length spatial"
    and "\<exists>p\<in>set (spec_pad_widths (modes L) spatial). p < 0"
  shows "build K L (b # map Some spatial @ [c]) =
     (Some (ValueError ''Too many modes for input shape!''),
      L\<lparr>transpose_op :=
           Some (ops_transpose (insert_at_1 (last [0..<length spatial + 2])
                                  (butlast [0..<length spatial + 2]))),
         inverse_transpose_op :=
           Some (ops_transpose (without_1 [0..<length spatial + 2] @
                                  [[0..<length spatial + 2] ! 1])),
         pad_width :=
           Some ((0, 0) # (0, 0) # map (Pair 0) (spec_pad_widths (modes L) spatial))\<rparr>)"
  using assms(4) by (simp add: build_channels_last [OF assms(1-3)] Let_def del: upt_Suc)




subsection \<open>The bias\<close>

lemma broadcast_rev_ones:
  "broadcast_rev (xs @ [f, n]) (replicate (length xs) 1 @ [f]) = Some (xs @ [f, n])"
  by (induction xs) auto

lemma broadcast_shapes_bias:
  assumes "length exts = r"
  shows "broadcast_shapes (n # f # exts) (f # replicate r 1) = Some (n # f # exts)"
proof -
  have "broadcast_rev (rev exts @ [f, n]) (replicate (length (rev exts)) 1 @ [f]) =
      Some (rev exts @ [f, n])"
    by (rule broadcast_rev_ones)
  then show ?thesis using assms by (simp add: broadcast_shapes_def)
qed

lemma bc_index_ones:
  "map2 (\<lambda>n. If (n = Suc 0) 0) (replicate (length is) (Suc 0)) is = replicate (length is) (0::nat)"
  by (induction "is") auto

lemma bc_index_bias:
  assumes "length idx = r + 2" and "idx ! 1 < f"
  shows "bc_index (f # replicate r 1) idx = idx ! 1 # replicate r 0"
proof -
  obtain i0 i1 rest where idx: "idx = i0 # i1 # rest"
    using assms(1) by (cases idx; cases "tl idx") auto
  then have "length rest = r" using assms(1) by simp
  then show ?thesis using assms(2) idx
    by (auto simp: bc_index_def bc_index_ones)
qed

lemma build_success_conditions:
  assumes "\<not> built L" and "data_format L = ''channels_last''"
    and "length (modes L) = length spatial"
    and "fst (build K L (b # map Some spatial @ [c])) = None"
  shows "(\<forall>p\<in>set (spec_pad_widths (modes L) spatial). 0 \<le> p)
     \<and> (\<exists>ch f. c = Some ch \<and> 0 \<le> ch \<and> filters L = Some f \<and> 0 \<le> f)
     \<and> (\<forall>m\<in>set (modes L). 0 \<le> m)"
proof -
  have p: "\<forall>p\<in>set (spec_pad_widths (modes L) spatial). 0 \<le> p"
  proof (rule ccontr)
    assume "\<not> (\<forall>p\<in>set (spec_pad_widths (modes L) spatial). 0 \<le> p)"
    then have "\<exists>p\<in>set (spec_pad_widths (modes L) spatial). p < 0" by force
    from build_too_many_modes [OF assms(1-3) this, of K b c] assms(4)
    show False by simp
  qed
  have "(\<exists>ch f. c = Some ch \<and> 0 \<le> ch \<and> filters L = Some f \<and> 0 \<le> f)
     \<and> (\<forall>m\<in>set (modes L). 0 \<le> m)"
  proof (rule ccontr)
    assume "\<not> ((\<exists>ch f. c = Some ch \<and> 0 \<le> ch \<and> filters L = Some f \<and> 0 \<le> f)
     \<and> (\<forall>m\<in>set (modes L). 0 \<le> m))"
    from build_failure [OF assms(1-3) p this, of K b] assms(4)
    show False by auto
  qed
  with p show ?thesis by blast
qed

text \<open>
  C9. Let a layer with a bias and \<open>f > 0\<close> filters be built successfully, by a Keras whose
  initializer returns a bias of the shape it is asked for. Then the bias has shape
  \<open>(f, 1, ..., 1)\<close> with \<open>rank\<close> ones, and for every batch size \<open>n\<close> and all \<open>rank\<close>
  extents it broadcasts against a tensor of shape \<open>(n, f, extents)\<close> to that same shape:
  entry \<open>idx\<close> of the sum reads the bias at \<open>(idx ! 1, 0, ..., 0)\<close>, so the filters axis
  of the bias lies on the channel axis, and the addition raises nothing.
\<close>

theorem bias_broadcastable:
  assumes "\<not> built L" and "data_format L = ''channels_last''"
    and "length (modes L) = length spatial"
    and "fst (build K L (b # map Some spatial @ [c])) = None"
    and "use_bias L" and "filters L = Some f" and "0 < f"
    and "shape (initial_value K (bias_initializer L) (nat f # replicate (rank L) 1))
           = nat f # replicate (rank L) 1"
    and "length exts = rank L"
  shows "\<exists>bt. bias (snd (build K L (b # map Some spatial @ [c]))) = Some bt
       \<and> shape bt = nat f # replicate (rank L) 1
       \<and> broadcast_shapes (n # nat f # exts) (shape bt) = Some (n # nat f # exts)
       \<and> (\<forall>idx. length idx = rank L + 2 \<and> idx ! 1 < nat f \<longrightarrow>
            bc_index (shape bt) idx = idx ! 1 # replicate (rank L) 0)
       \<and> (\<forall>y. shape y = n # nat f # exts \<longrightarrow> (\<exists>z. ops_add y bt = Inr z))"
proof -
  let ?bt = "initial_value K (bias_initializer L) (nat f # replicate (rank L) 1)"
  from build_success_conditions [OF assms(1-4)]
  obtain ch where k: "\<forall>p\<in>set (spec_pad_widths (modes L) spatial). 0 \<le> p"
    "c = Some ch" "0 \<le> ch" "\<forall>m\<in>set (modes L). 0 \<le> m"
    by blast
  have f: "0 \<le> f" using assms(7) by simp
  from build_success [OF assms(1-3) k(1-3) assms(6) f k(4), of K b]
  have bias: "bias (snd (build K L (b # map Some spatial @ [c]))) = Some ?bt"
    using assms(5) by auto
  have bs: "broadcast_shapes (n # nat f # exts) (shape ?bt) = Some (n # nat f # exts)"
    unfolding assms(8) by (rule broadcast_shapes_bias [OF assms(9)])
  have ix: "\<forall>idx. length idx = rank L + 2 \<and> idx ! 1 < nat f \<longrightarrow>
            bc_index (shape ?bt) idx = idx ! 1 # replicate (rank L) 0"
    unfolding assms(8) using bc_index_bias [of _ "rank L" "nat f"] by simp
  have add: "\<forall>y. shape y = n # nat f # exts \<longrightarrow> (\<exists>z. ops_add y ?bt = Inr z)"
    using bs by (simp add: ops_add_def ops_binary_def)
  show ?thesis using bias assms(8) bs ix add by blast
qed

theorem bias_broadcastable_witness:
  "\<exists>bt. bias (snd (build (keras_instance ''jax'')
        (projr (spectral_conv ''jax'' 2 (Some 8) [4, 4] None True))
        [None, Some 16, Some 16, Some 3])) = Some bt
     \<and> shape bt = [8, 1, 1]
     \<and> broadcast_shapes [5, 8, 16, 9] (shape bt) = Some [5, 8, 16, 9]"
proof -
  let ?K = "keras_instance ''jax''"
  let ?L = "projr (spectral_conv ''jax'' 2 (Some 8) [4, 4] None True)"
  have L: "\<not> built ?L" "data_format ?L = ''channels_last''"
    "length (modes ?L) = length [16, 16 :: int]"
    by (simp_all add: construct)
  have m: "modes ?L = [4, 4]" "rank ?L = 2" by (simp_all add: construct)
  have s: "fst (build ?K ?L (None # map Some [16, 16] @ [Some 3])) = None"
    by (simp add: construct build_def build_rest_def build_weights_def build_finish_def
        add_weight_as_def add_weight_def Let_def insert_at_1_def without_1_def
        function_eq_string_def list_ex_iff)
  have f: "use_bias ?L" "filters ?L = Some 8" "(0::int) < 8" by (simp_all add: construct)
  have a: "shape (initial_value ?K (bias_initializer ?L) (nat 8 # replicate (rank ?L) 1))
           = nat 8 # replicate (rank ?L) 1"
    unfolding m by (simp add: keras_instance_def eval_nat_numeral upt_conv_Cons)
  have e: "length [16, 9 :: nat] = rank ?L" unfolding m by simp
  show ?thesis
    using bias_broadcastable [OF L s f a e, of 5]
    unfolding m by (auto simp: eval_nat_numeral)
qed

subsection \<open>The example layers\<close>

lemmas building =
  built_layer_def build_def build_rest_def build_weights_def build_finish_def
  add_weight_as_def add_weight_def list_ex_iff Let_def
  insert_at_1_def without_1_def einsum_dim_def function_eq_string_def

lemma conv1d_two_channels:
  "modes conv1d_two_channels = [2]"
  "einsum_op_forward conv1d_two_channels = Some ''biX,ioX->boX''"
  "real_kernel conv1d_two_channels =
     Some (Arr [Arr [Arr [Scal 1, Scal 1]], Arr [Arr [Scal 1, Scal 1]]])"
  "imag_kernel conv1d_two_channels =
     Some (Arr [Arr [Arr [Scal 1, Scal 1]], Arr [Arr [Scal 1, Scal 1]]])"
  by (simp_all add: conv1d_two_channels_def construct building upt_conv_Cons eval_nat_numeral)

lemma conv3d:
  "modes conv3d = [2, 2, 2]"
  by (simp add: conv3d_def construct building)

lemma conv2d_no_bias:
  "modes conv2d_no_bias = [2, 2]"
  "pad_width conv2d_no_bias = Some [(0, 0), (0, 0), (0, 2), (0, 1)]"
  "use_bias conv2d_no_bias = False"
  "built conv2d_no_bias"
  by (simp_all add: conv2d_no_bias_def construct building)

lemma conv1d_tf:
  "modes conv1d_tf = [2]"
  "pad_width conv1d_tf = Some [(0, 0), (0, 0), (0, 3)]"
  "use_bias conv1d_tf"
  "bias conv1d_tf = Some (Arr [Arr [Scal 1]])"
  "built conv1d_tf"
  "transpose_op conv1d_tf = Some (ops_transpose [0, 2, 1])"
  "mode_truncation_slice conv1d_tf = Some [None, None, Some 2]"
  "einsum_op_backprop_weights conv1d_tf = None"
  by (simp_all add: conv1d_tf_def construct building upt_conv_Cons eval_nat_numeral)

lemma roll_list_simps:
  "roll_list (- 1) [a, b] = [b, a]"
  "roll_list (- 1) [a, b, c] = [b, c, a]"
  "roll_list (- 1) [a, b, c, d] = [b, c, d, a]"
  "roll_list s [a] = [a]"
  by (simp_all add: roll_list_def rotate_def eval_nat_numeral)

lemma replicate_simps:
  "replicate 2 x = [x, x]" "replicate 3 x = [x, x, x]"
  by (simp_all add: eval_nat_numeral)

subsection \<open>Spectral mixing\<close>

lemma tabulate_cong:
  "(\<And>idx. length idx = length ns \<Longrightarrow> f idx = g idx) \<Longrightarrow> tabulate ns f = tabulate ns g"
proof (induction ns arbitrary: f g)
  case Nil
  then show ?case by simp
next
  case (Cons n ns)
  have "tabulate ns (\<lambda>idx. f (i # idx)) = tabulate ns (\<lambda>idx. g (i # idx))" for i
    by (rule Cons.IH) (simp add: Cons.prems)
  then show ?case by simp
qed

lemma length_3: "length idx = 3 \<Longrightarrow> \<exists>a b c. idx = [a, b, c]"
  by (cases idx; cases "tl idx"; cases "tl (tl idx)") auto

lemma length_4: "length idx = 4 \<Longrightarrow> \<exists>a b c d. idx = [a, b, c, d]"
  by (cases idx; cases "tl idx"; cases "tl (tl idx)"; cases "tl (tl (tl idx))") auto

lemma length_5: "length idx = 5 \<Longrightarrow> \<exists>a b c d e. idx = [a, b, c, d, e]"
  by (cases idx; cases "tl idx"; cases "tl (tl idx)"; cases "tl (tl (tl idx))";
      cases "tl (tl (tl (tl idx)))") auto

text \<open>The forward contraction of each rank is the contraction that the spec describes.\<close>

lemma einsum_forward_rank1:
  assumes "shape x = [nb, ni, m1]" and "shape w = [ni, no, m1]"
  shows "ops_einsum ''biX,ioX->boX'' [x, w] = Inr (spec_contract x w)"
proof -
  have "tabulate [nb, no, m1] (\<lambda>idx. \<Sum>vals\<leftarrow>map (\<lambda>i. [i]) [0..<ni].
           lookup x (map (letter_val (zip ''boX'' idx @ zip ''i'' vals)) ''biX'') *
           (lookup w (map (letter_val (zip ''boX'' idx @ zip ''i'' vals)) ''ioX'') * 1)) =
        tabulate [nb, no, m1]
          (\<lambda>idx. \<Sum>i\<leftarrow>[0..<ni].
                    lookup x (idx ! 0 # i # drop 2 idx) * lookup w (i # idx ! 1 # drop 2 idx))"
  proof (rule tabulate_cong)
    fix idx :: "nat list" assume "length idx = length [nb, no, m1]"
    then obtain a b c where "idx = [a, b, c]" using length_3 [of idx] by auto
    then show "(\<Sum>vals\<leftarrow>map (\<lambda>i. [i]) [0..<ni].
           lookup x (map (letter_val (zip ''boX'' idx @ zip ''i'' vals)) ''biX'') *
           (lookup w (map (letter_val (zip ''boX'' idx @ zip ''i'' vals)) ''ioX'') * 1)) =
        (\<Sum>i\<leftarrow>[0..<ni].
           lookup x (idx ! 0 # i # drop 2 idx) * lookup w (i # idx ! 1 # drop 2 idx))"
      by (simp add: letter_val_def o_def)
  qed
  then show ?thesis
    using assms
    by (simp add: ops_einsum_def spec_contract_def Let_def ndim_def letter_val_def o_def)
qed

lemma einsum_forward_rank2:
  assumes "shape x = [nb, ni, m1, m2]" and "shape w = [ni, no, m1, m2]"
  shows "ops_einsum ''biXY,ioXY->boXY'' [x, w] = Inr (spec_contract x w)"
proof -
  have "tabulate [nb, no, m1, m2] (\<lambda>idx. \<Sum>vals\<leftarrow>map (\<lambda>i. [i]) [0..<ni].
           lookup x (map (letter_val (zip ''boXY'' idx @ zip ''i'' vals)) ''biXY'') *
           (lookup w (map (letter_val (zip ''boXY'' idx @ zip ''i'' vals)) ''ioXY'') * 1)) =
        tabulate [nb, no, m1, m2]
          (\<lambda>idx. \<Sum>i\<leftarrow>[0..<ni].
                    lookup x (idx ! 0 # i # drop 2 idx) * lookup w (i # idx ! 1 # drop 2 idx))"
  proof (rule tabulate_cong)
    fix idx :: "nat list" assume "length idx = length [nb, no, m1, m2]"
    then obtain a b c d where "idx = [a, b, c, d]" using length_4 [of idx] by auto
    then show "(\<Sum>vals\<leftarrow>map (\<lambda>i. [i]) [0..<ni].
           lookup x (map (letter_val (zip ''boXY'' idx @ zip ''i'' vals)) ''biXY'') *
           (lookup w (map (letter_val (zip ''boXY'' idx @ zip ''i'' vals)) ''ioXY'') * 1)) =
        (\<Sum>i\<leftarrow>[0..<ni].
           lookup x (idx ! 0 # i # drop 2 idx) * lookup w (i # idx ! 1 # drop 2 idx))"
      by (simp add: letter_val_def o_def)
  qed
  then show ?thesis
    using assms
    by (simp add: ops_einsum_def spec_contract_def Let_def ndim_def letter_val_def o_def)
qed

lemma einsum_forward_rank3:
  assumes "shape x = [nb, ni, m1, m2, m3]" and "shape w = [ni, no, m1, m2, m3]"
  shows "ops_einsum ''biXYZ,ioXYZ->boXYZ'' [x, w] = Inr (spec_contract x w)"
proof -
  have "tabulate [nb, no, m1, m2, m3] (\<lambda>idx. \<Sum>vals\<leftarrow>map (\<lambda>i. [i]) [0..<ni].
           lookup x (map (letter_val (zip ''boXYZ'' idx @ zip ''i'' vals)) ''biXYZ'') *
           (lookup w (map (letter_val (zip ''boXYZ'' idx @ zip ''i'' vals)) ''ioXYZ'') * 1)) =
        tabulate [nb, no, m1, m2, m3]
          (\<lambda>idx. \<Sum>i\<leftarrow>[0..<ni].
                    lookup x (idx ! 0 # i # drop 2 idx) * lookup w (i # idx ! 1 # drop 2 idx))"
  proof (rule tabulate_cong)
    fix idx :: "nat list" assume "length idx = length [nb, no, m1, m2, m3]"
    then obtain a b c d e where "idx = [a, b, c, d, e]" using length_5 [of idx] by auto
    then show "(\<Sum>vals\<leftarrow>map (\<lambda>i. [i]) [0..<ni].
           lookup x (map (letter_val (zip ''boXYZ'' idx @ zip ''i'' vals)) ''biXYZ'') *
           (lookup w (map (letter_val (zip ''boXYZ'' idx @ zip ''i'' vals)) ''ioXYZ'') * 1)) =
        (\<Sum>i\<leftarrow>[0..<ni].
           lookup x (idx ! 0 # i # drop 2 idx) * lookup w (i # idx ! 1 # drop 2 idx))"
      by (simp add: letter_val_def o_def)
  qed
  then show ?thesis
    using assms
    by (simp add: ops_einsum_def spec_contract_def Let_def ndim_def letter_val_def o_def)
qed

lemma einsum_forward_contract:
  assumes "1 \<le> length ms" and "length ms \<le> 3" and "length mds = length ms"
    and "shape x = nb # ni # ms" and "shape w = ni # no # ms"
  shows "ops_einsum
           (''bi'' @ einsum_dim mds @ '',io'' @ einsum_dim mds @ ''->bo'' @ einsum_dim mds)
           [x, w] =
         Inr (spec_contract x w)"
proof -
  consider m1 u1 where "ms = [m1]" "mds = [u1]"
    | m1 m2 u1 u2 where "ms = [m1, m2]" "mds = [u1, u2]"
    | m1 m2 m3 u1 u2 u3 where "ms = [m1, m2, m3]" "mds = [u1, u2, u3]"
    using assms(1-3)
    by (cases ms; cases "tl ms"; cases "tl (tl ms)"; cases mds; cases "tl mds";
        cases "tl (tl mds)") auto
  then show ?thesis
  proof cases
    case 1
    then show ?thesis using assms(4,5) einsum_forward_rank1 [of x nb ni m1 w no]
      by (simp add: einsum_dim_def)
  next
    case 2
    then show ?thesis using assms(4,5) einsum_forward_rank2 [of x nb ni m1 m2 w no]
      by (simp add: einsum_dim_def)
  next
    case 3
    then show ?thesis using assms(4,5) einsum_forward_rank3 [of x nb ni m1 m2 m3 w no]
      by (simp add: einsum_dim_def)
  qed
qed

text \<open>
  C1. On both backends the real and the imaginary mixed component are the same
  function of the layer and of the truncated coefficients. On a layer of rank 1, 2 or 3
  that holds the forward contraction that \<^verbatim>\<open>build\<close> stores and kernels of shape
  \<open>(c, f, modes)\<close>, applied to coefficients of shape \<open>(n, c, modes)\<close>, that function is
  \<open>contract(xr, real_kernel) - contract(xi, imag_kernel)\<close>, with the contraction of the
  spec.
\<close>

theorem mixed_components_identical:
  "tf_y_hat_imag_truncated L xr xi = tf_y_hat_real_truncated L xr xi
   \<and> jax_y_hat_real_truncated L xr xi = tf_y_hat_real_truncated L xr xi
   \<and> jax_y_hat_imag_truncated L xr xi = jax_y_hat_real_truncated L xr xi
   \<and> (einsum_op_forward L =
        Some (''bi'' @ einsum_dim (modes L) @ '',io'' @ einsum_dim (modes L) @ ''->bo''
              @ einsum_dim (modes L))
      \<and> real_kernel L = Some wr \<and> imag_kernel L = Some wi
      \<and> 1 \<le> length (modes L) \<and> length (modes L) \<le> 3 \<and> length ms = length (modes L)
      \<and> shape xr = n # c # ms \<and> shape xi = n # c # ms
      \<and> shape wr = c # f # ms \<and> shape wi = c # f # ms \<longrightarrow>
        tf_y_hat_real_truncated L xr xi =
          ops_subtract (spec_contract xr wr) (spec_contract xi wi))"
proof -
  have "tf_y_hat_real_truncated L xr xi =
      ops_subtract (spec_contract xr wr) (spec_contract xi wi)"
    if h: "einsum_op_forward L =
        Some (''bi'' @ einsum_dim (modes L) @ '',io'' @ einsum_dim (modes L) @ ''->bo''
              @ einsum_dim (modes L))"
      "real_kernel L = Some wr" "imag_kernel L = Some wi"
      "1 \<le> length (modes L)" "length (modes L) \<le> 3" "length ms = length (modes L)"
      "shape xr = n # c # ms" "shape xi = n # c # ms"
      "shape wr = c # f # ms" "shape wi = c # f # ms"
  proof -
    have l: "1 \<le> length ms" "length ms \<le> 3" "length (modes L) = length ms"
      using h(4-6) by simp_all
    show ?thesis
      unfolding tf_y_hat_real_truncated_def h(1-3)
      by (simp only: attr.simps bindE.simps einsum_forward_contract [OF l h(7) h(9)]
          einsum_forward_contract [OF l h(8) h(10)])
  qed
  then show ?thesis
    by (simp add: tf_y_hat_imag_truncated_def tf_y_hat_real_truncated_def
        jax_y_hat_real_truncated_def jax_y_hat_imag_truncated_def)
qed

lemma spec_contract_example:
  "spec_contract (Arr [Arr [Arr [Scal 1, Scal 2], Arr [Scal 3, Scal 4]]])
     (Arr [Arr [Arr [Scal 1, Scal 1]], Arr [Arr [Scal 1, Scal 1]]]) =
   Arr [Arr [Arr [Scal 4, Scal 6]]]"
  "spec_contract (Arr [Arr [Arr [Scal 10, Scal 20], Arr [Scal 30, Scal 50]]])
     (Arr [Arr [Arr [Scal 1, Scal 1]], Arr [Arr [Scal 1, Scal 1]]]) =
   Arr [Arr [Arr [Scal 40, Scal 70]]]"
  by (simp_all add: spec_contract_def upt_conv_Cons)

theorem mixed_components_identical_witness:
  "tf_y_hat_real_truncated conv1d_two_channels
     (Arr [Arr [Arr [Scal 1, Scal 2], Arr [Scal 3, Scal 4]]])
     (Arr [Arr [Arr [Scal 10, Scal 20], Arr [Scal 30, Scal 50]]]) =
       Inr (Arr [Arr [Arr [Scal (- 36), Scal (- 64)]]])
   \<and> tf_y_hat_imag_truncated conv1d_two_channels
     (Arr [Arr [Arr [Scal 1, Scal 2], Arr [Scal 3, Scal 4]]])
     (Arr [Arr [Arr [Scal 10, Scal 20], Arr [Scal 30, Scal 50]]]) =
       Inr (Arr [Arr [Arr [Scal (- 36), Scal (- 64)]]])
   \<and> jax_y_hat_real_truncated conv1d_two_channels
     (Arr [Arr [Arr [Scal 1, Scal 2], Arr [Scal 3, Scal 4]]])
     (Arr [Arr [Arr [Scal 10, Scal 20], Arr [Scal 30, Scal 50]]]) =
       Inr (Arr [Arr [Arr [Scal (- 36), Scal (- 64)]]])
   \<and> jax_y_hat_imag_truncated conv1d_two_channels
     (Arr [Arr [Arr [Scal 1, Scal 2], Arr [Scal 3, Scal 4]]])
     (Arr [Arr [Arr [Scal 10, Scal 20], Arr [Scal 30, Scal 50]]]) =
       Inr (Arr [Arr [Arr [Scal (- 36), Scal (- 64)]]])"
  using mixed_components_identical [of conv1d_two_channels
      "Arr [Arr [Arr [Scal 1, Scal 2], Arr [Scal 3, Scal 4]]]"
      "Arr [Arr [Arr [Scal 10, Scal 20], Arr [Scal 30, Scal 50]]]"
      "Arr [Arr [Arr [Scal 1, Scal 1]], Arr [Arr [Scal 1, Scal 1]]]"
      "Arr [Arr [Arr [Scal 1, Scal 1]], Arr [Arr [Scal 1, Scal 1]]]"
      "[2]" 1 2 1]
  by (simp add: conv1d_two_channels spec_contract_example einsum_dim_def ops_subtract_def
      ops_binary_def broadcast_shapes_def bc_index_def upt_conv_Cons)

subsection \<open>The spectral shift\<close>

text \<open>
  On a tensor with two more axes than the layer has modes, the loop of
  \<^verbatim>\<open>rfft_shift\<close> runs once: it rolls the axis whose number is the number of modes,
  by the first mode.
\<close>

lemma rfft_shift_axes_built:
  "modes L = m # ms \<Longrightarrow>
   rfft_shift_axes L (length (modes L) + 2) = [(length (modes L), m)]"
  by (simp add: rfft_shift_axes_def upt_conv_Cons)

text \<open>
  C5, where the code departs from it. For rank 1 and modes \<open>(2,)\<close>, \<^verbatim>\<open>rfft_shift\<close>
  on coefficients of shape \<open>(1, 2, 3)\<close> rolls the channel axis, so the two channels
  change places, where the claim has no axis shifted. For rank 3 and modes \<open>(2, 2, 2)\<close>,
  on coefficients of shape \<open>(1, 1, 2, 3, 2)\<close> it rolls the second transformed axis by the
  first mode and leaves the first transformed axis as it is, where the claim has both
  shifted.
\<close>

theorem rfft_shift_rolls_one_axis:
  "rfft_shift conv1d_two_channels
     (Arr [Arr [Arr [Scal 1, Scal 2, Scal 3], Arr [Scal 4, Scal 5, Scal 6]]]) =
   Arr [Arr [Arr [Scal 4, Scal 5, Scal 6], Arr [Scal 1, Scal 2, Scal 3]]]
   \<and> rfft_shift conv3d
     (Arr [Arr [Arr [Arr [Arr [Scal 1, Scal 2], Arr [Scal 3, Scal 4], Arr [Scal 5, Scal 6]],
                     Arr [Arr [Scal 7, Scal 8], Arr [Scal 9, Scal 10], Arr [Scal 11, Scal 12]]]]]) =
   Arr [Arr [Arr [Arr [Arr [Scal 3, Scal 4], Arr [Scal 5, Scal 6], Arr [Scal 1, Scal 2]],
                  Arr [Arr [Scal 9, Scal 10], Arr [Scal 11, Scal 12], Arr [Scal 7, Scal 8]]]]]"
  by (simp add: rfft_shift_def rfft_shift_axes_def conv1d_two_channels conv3d
      ndim_def upt_conv_Cons roll_list_simps)

text \<open>
  C4, where the code departs from it. For rank 2 and modes \<open>(2, 2)\<close> on a \<open>4 \<times> 4\<close>
  input, the reconstruction pads the mixed coefficients to shape \<open>(1, 1, 4, 3)\<close> and
  then rolls the first transformed axis by \<open>-1\<close>, the shift of the forward pass, not by
  \<open>+1\<close>: the rows \<open>r0, r1, 0, 0\<close> come out as \<open>r1, 0, 0, r0\<close>. Forward shift and
  reconstruction shift together roll by \<open>-2\<close>, which is not the identity.
\<close>

theorem reconstruction_shift_repeats_forward_shift:
  "pad_bias_shift conv2d_no_bias
     (Arr [Arr [Arr [Arr [Scal 1, Scal 2], Arr [Scal 3, Scal 4]]]])
     (Arr [Arr [Arr [Arr [Scal 5, Scal 6], Arr [Scal 7, Scal 8]]]]) =
   Inr (Arr [Arr [Arr [Arr [Scal 3, Scal 4, Scal 0], Arr [Scal 0, Scal 0, Scal 0],
                       Arr [Scal 0, Scal 0, Scal 0], Arr [Scal 1, Scal 2, Scal 0]]]],
        Arr [Arr [Arr [Arr [Scal 7, Scal 8, Scal 0], Arr [Scal 0, Scal 0, Scal 0],
                       Arr [Scal 0, Scal 0, Scal 0], Arr [Scal 5, Scal 6, Scal 0]]]])
   \<and> rfft_shift conv2d_no_bias
       (rfft_shift conv2d_no_bias
          (Arr [Arr [Arr [Arr [Scal 1, Scal 2, Scal 3], Arr [Scal 4, Scal 5, Scal 6],
                          Arr [Scal 7, Scal 8, Scal 9], Arr [Scal 10, Scal 11, Scal 12]]]])) =
     Arr [Arr [Arr [Arr [Scal 7, Scal 8, Scal 9], Arr [Scal 10, Scal 11, Scal 12],
                    Arr [Scal 1, Scal 2, Scal 3], Arr [Scal 4, Scal 5, Scal 6]]]]"
  by (simp add: pad_bias_shift_def rfft_shift_def rfft_shift_axes_def conv2d_no_bias
      ndim_def upt_conv_Cons roll_list_simps replicate_simps)

subsection \<open>Bias and padding\<close>

text \<open>
  C3, where the code departs from it. The layer pads first and adds the bias to the
  padded tensors: with bias 1, modes \<open>(2,)\<close> and an input of length 8, the mixed
  coefficients \<open>(5, 7)\<close> enter the inverse transform as \<open>(6, 8, 1, 1, 1)\<close>, so the three
  coefficients outside the retained window are the bias and not zero.
\<close>

theorem bias_added_after_padding:
  "pad_bias_shift conv1d_tf (Arr [Arr [Arr [Scal 5, Scal 7]]]) (Arr [Arr [Arr [Scal 5, Scal 7]]]) =
   Inr (Arr [Arr [Arr [Scal 6, Scal 8, Scal 1, Scal 1, Scal 1]]],
        Arr [Arr [Arr [Scal 6, Scal 8, Scal 1, Scal 1, Scal 1]]])"
  by (simp add: pad_bias_shift_def rfft_shift_def rfft_shift_axes_def conv1d_tf
      ndim_def upt_conv_Cons roll_list_simps replicate_simps ops_add_def ops_binary_def
      broadcast_shapes_def bc_index_def)

subsection \<open>The manual backward pass\<close>

text \<open>
  \<^verbatim>\<open>build\<close> never stores the three backprop contractions, on any backend, and
  \<^verbatim>\<open>__init__\<close> does not either; so the gradient function fails wherever it is called.
\<close>

lemma build_keeps_backprop_specs:
  "einsum_op_backprop_weights (snd (build K L shp)) = einsum_op_backprop_weights L"
  "einsum_op_backprop_x (snd (build K L shp)) = einsum_op_backprop_x L"
  "einsum_op_backprop_bias (snd (build K L shp)) = einsum_op_backprop_bias L"
  by (auto simp: build_def build_rest_def build_weights_def build_finish_def add_weight_as_def
      Let_def function_eq_string_def split: sum.splits option.splits)

lemma init_no_backprop_specs:
  "init K r f m d ub ki bi kc bc kr br nm = Inr L \<Longrightarrow>
   einsum_op_backprop_weights L = None \<and> einsum_op_backprop_x L = None
   \<and> einsum_op_backprop_bias L = None \<and> \<not> built L"
  by (cases "standardize_tuple m r"; cases "standardize_data_format K d")
    (auto simp: init_def split: option.splits if_splits)

lemma backprop_without_spec:
  "einsum_op_backprop_weights L = None \<Longrightarrow> \<exists>e. backprop L xr xi dy = Inl e"
  by (cases "x_hat_truncated L dy") (auto simp: backprop_def split_beta)

text \<open>
  C2, where the code departs from it. On the tensorflow backend, for the rank-1 layer
  built on an input of shape \<open>(None, 8, 1)\<close>, the gradient function returns no
  gradients: for every upstream gradient \<open>dy\<close> and all coefficients of the forward pass it
  raises \<^verbatim>\<open>AttributeError\<close> at its first contraction (line 354).
\<close>

theorem backprop_raises_attribute_error:
  "backprop conv1d_tf x_hat_real_truncated x_hat_imag_truncated dy =
     Inl (AttributeError ''einsum_op_backprop_weights'')"
  by (simp add: backprop_def x_hat_truncated_def rfft_def conv1d_tf split_beta)

text \<open>
  Beyond the missing attributes: the formulas of the gradient function are not the
  derivative of the forward pass either. On the trained layer, where the contractions are
  stored, take the input \<open>(1, 0, 0, 0)\<close> and the upstream gradient \<open>(0, 1, 0, 0)\<close>,
  with the transforms as modelled above. The forward output is a function of the kernel
  entry \<open>w\<close>, and the loss \<open>\<Sum> dy * y\<close> has derivative \<open>- 1 / 2\<close> in \<open>w\<close>; the
  gradient function returns \<open>0\<close> for that entry.
\<close>

lemma Suc_Suc_0: "Suc (Suc 0) = 2"
  by simp

lemma trig_three_halves:
  "cos (3 * pi / 2) = 0" "sin (3 * pi / 2) = - 1"
  "cos (pi * 3 / 2) = 0" "sin (pi * 3 / 2) = - 1"
  using cos_3over2_pi sin_3over2_pi by (simp_all add: field_simps)

lemma rfftn_length_4:
  "rfftn (Suc 0) (Arr [Arr [Arr [Scal x0, Scal x1, Scal x2, Scal x3]]]) =
   (Arr [Arr [Arr [Scal (x0 + x1 + x2 + x3), Scal (x0 - x2), Scal (x0 - x1 + x2 - x3)]]],
    Arr [Arr [Arr [Scal 0, Scal (x3 - x1), Scal 0]]])"
  by (simp add: rfftn_def dft_angle_def Let_def upt_conv_Cons Suc_Suc_0 trig_three_halves)

lemma irfftn_length_4:
  "irfftn (Suc 0)
     (Arr [Arr [Arr [Scal a0, Scal a1, Scal a2]]], Arr [Arr [Arr [Scal b0, Scal b1, Scal b2]]]) =
   Arr [Arr [Arr [Scal ((a0 + 2 * a1 + a2) / 4), Scal ((a0 - 2 * b1 - a2) / 4),
                  Scal ((a0 - 2 * a1 + a2) / 4), Scal ((a0 + 2 * b1 - a2) / 4)]]]"
  by (simp add: irfftn_def dft_angle_def Let_def upt_conv_Cons Suc_Suc_0 trig_three_halves)

lemma transpose_to_channels_first:
  "ops_transpose [0, 2, Suc 0]
     (Arr [Arr [Arr [Scal x0], Arr [Scal x1], Arr [Scal x2], Arr [Scal x3]]]) =
   Arr [Arr [Arr [Scal x0, Scal x1, Scal x2, Scal x3]]]"
  by (simp add: ops_transpose_def upt_conv_Cons Suc_Suc_0)

lemma transpose_to_channels_last:
  "ops_transpose [0, 2, Suc 0] (Arr [Arr [Arr [Scal x0, Scal x1, Scal x2, Scal x3]]]) =
   Arr [Arr [Arr [Scal x0], Arr [Scal x1], Arr [Scal x2], Arr [Scal x3]]]"
  by (simp add: ops_transpose_def upt_conv_Cons Suc_Suc_0)

lemma conv1d_tf_trained:
  "modes (conv1d_tf_trained w) = [2]"
  "use_bias (conv1d_tf_trained w) = False"
  "rfft_fn (conv1d_tf_trained w) = rfftn 1"
  "irfft_fn (conv1d_tf_trained w) = irfftn 1"
  "transpose_op (conv1d_tf_trained w) = Some (ops_transpose [0, 2, 1])"
  "inverse_transpose_op (conv1d_tf_trained w) = Some (ops_transpose [0, 2, 1])"
  "pad_width (conv1d_tf_trained w) = Some [(0, 0), (0, 0), (0, 1)]"
  "real_kernel (conv1d_tf_trained w) = Some (Arr [Arr [Arr [Scal 1, Scal w]]])"
  "imag_kernel (conv1d_tf_trained w) = Some (Arr [Arr [Arr [Scal 1, Scal 1]]])"
  "mode_truncation_slice (conv1d_tf_trained w) = Some [None, None, Some 2]"
  "einsum_op_forward (conv1d_tf_trained w) = Some ''biX,ioX->boX''"
  "einsum_op_backprop_weights (conv1d_tf_trained w) = Some ''boX,biX->ioX''"
  "einsum_op_backprop_x (conv1d_tf_trained w) = Some ''boX,ioX->biX''"
  "einsum_op_backprop_bias (conv1d_tf_trained w) = Some ''boX->o''"
  by (simp_all add: conv1d_tf_trained_def with_backprop_specs_def construct building
      upt_conv_Cons Suc_Suc_0)

lemma x_hat_truncated_trained:
  "x_hat_truncated (conv1d_tf_trained w)
     (Arr [Arr [Arr [Scal x0], Arr [Scal x1], Arr [Scal x2], Arr [Scal x3]]]) =
   Inr (Arr [Arr [Arr [Scal (x0 + x1 + x2 + x3), Scal (x0 - x2)]]],
        Arr [Arr [Arr [Scal 0, Scal (x3 - x1)]]])"
  using transpose_to_channels_first [of x0 x1 x2 x3] rfftn_length_4 [of x0 x1 x2 x3]
  by (simp add: x_hat_truncated_def rfft_def conv1d_tf_trained rfft_shift_def
      rfft_shift_axes_def ndim_def roll_list_simps py_take_def upt_conv_Cons)

lemma einsum_one_channel:
  "ops_einsum ''biX,ioX->boX''
     [Arr [Arr [Arr [Scal a0, Scal a1]]], Arr [Arr [Arr [Scal w0, Scal w1]]]] =
   Inr (Arr [Arr [Arr [Scal (a0 * w0), Scal (a1 * w1)]]])"
  "ops_einsum ''boX,biX->ioX''
     [Arr [Arr [Arr [Scal a0, Scal a1]]], Arr [Arr [Arr [Scal w0, Scal w1]]]] =
   Inr (Arr [Arr [Arr [Scal (a0 * w0), Scal (a1 * w1)]]])"
  "ops_einsum ''boX,ioX->biX''
     [Arr [Arr [Arr [Scal a0, Scal a1]]], Arr [Arr [Arr [Scal w0, Scal w1]]]] =
   Inr (Arr [Arr [Arr [Scal (a0 * w0), Scal (a1 * w1)]]])"
  by (simp_all add: ops_einsum_def Let_def ndim_def letter_val_def upt_conv_Cons)

lemma arithmetic_one_channel:
  "ops_subtract (Arr [Arr [Arr [Scal a0, Scal a1]]]) (Arr [Arr [Arr [Scal b0, Scal b1]]]) =
     Inr (Arr [Arr [Arr [Scal (a0 - b0), Scal (a1 - b1)]]])"
  "ops_add (Arr [Arr [Arr [Scal a0, Scal a1]]]) (Arr [Arr [Arr [Scal b0, Scal b1]]]) =
     Inr (Arr [Arr [Arr [Scal (a0 + b0), Scal (a1 + b1)]]])"
  by (simp_all add: ops_subtract_def ops_add_def ops_binary_def broadcast_shapes_def
      bc_index_def upt_conv_Cons)

lemma pad_one_channel:
  "ops_pad [(0, 0), (0, 0), (0, 1)] (Arr [Arr [Arr [Scal a0, Scal a1]]]) =
   Arr [Arr [Arr [Scal a0, Scal a1, Scal 0]]]"
  by simp

lemma rfft_shift_one_channel:
  "rfft_shift (conv1d_tf_trained w) (Arr [Arr [Arr [Scal a0, Scal a1, Scal a2]]]) =
   Arr [Arr [Arr [Scal a0, Scal a1, Scal a2]]]"
  by (simp add: rfft_shift_def rfft_shift_axes_def conv1d_tf_trained ndim_def roll_list_simps
      upt_conv_Cons)

lemma call_trained:
  "call (keras_instance ''tensorflow'') (conv1d_tf_trained w)
     (Arr [Arr [Arr [Scal x0], Arr [Scal x1], Arr [Scal x2], Arr [Scal x3]]]) =
   Inr (Arr [Arr [Arr [Scal ((x0 + 3 * x1 + x2 - x3 + 2 * (x0 - x2) * w) / 4)],
                  Arr [Scal ((x0 - x1 + x2 + 3 * x3 - 2 * (x0 - x2) * w) / 4)],
                  Arr [Scal ((x0 - x1 + x2 + 3 * x3 - 2 * (x0 - x2) * w) / 4)],
                  Arr [Scal ((x0 + 3 * x1 + x2 - x3 + 2 * (x0 - x2) * w) / 4)]]])"
  by (simp add: call_def forward_def x_hat_truncated_trained tf_y_hat_real_truncated_def
      tf_y_hat_imag_truncated_def conv1d_tf_trained einsum_one_channel arithmetic_one_channel
      pad_bias_shift_def pad_one_channel rfft_shift_one_channel irfft_def irfftn_length_4
      transpose_to_channels_last Let_def keras_instance_def
      del: ops_pad.simps)

lemma backprop_trained:
  "backprop (conv1d_tf_trained w) (Arr [Arr [Arr [Scal a0, Scal a1]]])
     (Arr [Arr [Arr [Scal b0, Scal b1]]])
     (Arr [Arr [Arr [Scal g0], Arr [Scal g1], Arr [Scal g2], Arr [Scal g3]]]) =
   Inr (Arr [Arr [Arr [Scal ((g0 - g1 + g2 + 3 * g3 + 2 * (g0 - g2) * w) / 4)],
                  Arr [Scal ((3 * g0 + g1 - g2 + g3 - 2 * (g3 - g1) * w) / 4)],
                  Arr [Scal ((g0 + 3 * g1 + g2 - g3 - 2 * (g0 - g2) * w) / 4)],
                  Arr [Scal ((- g0 + g1 + 3 * g2 + g3 + 2 * (g3 - g1) * w) / 4)]]],
        [Arr [Arr [Arr [Scal ((g0 + g1 + g2 + g3) * a0),
                        Scal ((g0 - g2) * a1 + (g3 - g1) * b1)]]],
         Arr [Arr [Arr [Scal ((g0 + g1 + g2 + g3) * b0),
                        Scal ((g0 - g2) * b1 - (g3 - g1) * a1)]]]])"
  by (simp add: backprop_def x_hat_truncated_trained conv1d_tf_trained einsum_one_channel
      arithmetic_one_channel pad_one_channel rfft_shift_one_channel irfft_def irfftn_length_4
      transpose_to_channels_last Let_def
      del: ops_pad.simps)

lemma manual_gradient_is_not_the_derivative:
  "x_hat_truncated (conv1d_tf_trained w)
     (Arr [Arr [Arr [Scal 1], Arr [Scal 0], Arr [Scal 0], Arr [Scal 0]]]) =
     Inr (Arr [Arr [Arr [Scal 1, Scal 1]]], Arr [Arr [Arr [Scal 0, Scal 0]]])"
  "\<exists>dx. backprop (conv1d_tf_trained w) (Arr [Arr [Arr [Scal 1, Scal 1]]])
     (Arr [Arr [Arr [Scal 0, Scal 0]]])
     (Arr [Arr [Arr [Scal 0], Arr [Scal 1], Arr [Scal 0], Arr [Scal 0]]]) =
     Inr (dx, [Arr [Arr [Arr [Scal 1, Scal 0]]], Arr [Arr [Arr [Scal 0, Scal 1]]]])"
  "inner (Arr [Arr [Arr [Scal 0], Arr [Scal 1], Arr [Scal 0], Arr [Scal 0]]])
     (projr (call (keras_instance ''tensorflow'') (conv1d_tf_trained w)
        (Arr [Arr [Arr [Scal 1], Arr [Scal 0], Arr [Scal 0], Arr [Scal 0]]]))) = 1 / 4 - w / 2"
  "((\<lambda>w. inner (Arr [Arr [Arr [Scal 0], Arr [Scal 1], Arr [Scal 0], Arr [Scal 0]]])
     (projr (call (keras_instance ''tensorflow'') (conv1d_tf_trained w)
        (Arr [Arr [Arr [Scal 1], Arr [Scal 0], Arr [Scal 0], Arr [Scal 0]]]))))
     has_real_derivative - 1 / 2) (at w)"
proof -
  show "x_hat_truncated (conv1d_tf_trained w)
     (Arr [Arr [Arr [Scal 1], Arr [Scal 0], Arr [Scal 0], Arr [Scal 0]]]) =
     Inr (Arr [Arr [Arr [Scal 1, Scal 1]]], Arr [Arr [Arr [Scal 0, Scal 0]]])"
    by (simp add: x_hat_truncated_trained)
  show "\<exists>dx. backprop (conv1d_tf_trained w) (Arr [Arr [Arr [Scal 1, Scal 1]]])
     (Arr [Arr [Arr [Scal 0, Scal 0]]])
     (Arr [Arr [Arr [Scal 0], Arr [Scal 1], Arr [Scal 0], Arr [Scal 0]]]) =
     Inr (dx, [Arr [Arr [Arr [Scal 1, Scal 0]]], Arr [Arr [Arr [Scal 0, Scal 1]]]])"
    by (simp add: backprop_trained)
  have l: "inner (Arr [Arr [Arr [Scal 0], Arr [Scal 1], Arr [Scal 0], Arr [Scal 0]]])
     (projr (call (keras_instance ''tensorflow'') (conv1d_tf_trained w)
        (Arr [Arr [Arr [Scal 1], Arr [Scal 0], Arr [Scal 0], Arr [Scal 0]]]))) = 1 / 4 - w / 2"
    for w
    by (simp add: call_trained inner_def field_simps)
  show "inner (Arr [Arr [Arr [Scal 0], Arr [Scal 1], Arr [Scal 0], Arr [Scal 0]]])
     (projr (call (keras_instance ''tensorflow'') (conv1d_tf_trained w)
        (Arr [Arr [Arr [Scal 1], Arr [Scal 0], Arr [Scal 0], Arr [Scal 0]]]))) = 1 / 4 - w / 2"
    by (rule l)
  show "((\<lambda>w. inner (Arr [Arr [Arr [Scal 0], Arr [Scal 1], Arr [Scal 0], Arr [Scal 0]]])
     (projr (call (keras_instance ''tensorflow'') (conv1d_tf_trained w)
        (Arr [Arr [Arr [Scal 1], Arr [Scal 0], Arr [Scal 0], Arr [Scal 0]]]))))
     has_real_derivative - 1 / 2) (at w)"
    unfolding l by (auto intro!: derivative_eq_intros)
qed

subsection \<open>Serialization\<close>

lemma from_config_get_config:
  "layer_get_config K (name L) ''kernel_initialzer'' = None \<Longrightarrow>
   from_config K cls (get_config K L) = Inl (KeyError ''kernel_initialzer'')"
  by (simp add: from_config_def dict_pop_def get_config_def)

text \<open>
  C6, where the code departs from it. \<^verbatim>\<open>from_config\<close> pops the key
  \<^verbatim>\<open>kernel_initialzer\<close>, which \<^verbatim>\<open>get_config\<close> never writes (it writes
  \<^verbatim>\<open>kernel_initializer\<close>): for every layer, every backend and every class,
  \<^verbatim>\<open>from_config(get_config())\<close> raises \<^verbatim>\<open>KeyError\<close> and reconstructs nothing.
\<close>

theorem from_config_get_config_raises_key_error:
  "from_config (keras_instance be) cls (get_config (keras_instance be) L) =
     Inl (KeyError ''kernel_initialzer'')"
  by (simp add: from_config_def dict_pop_def get_config_def keras_instance_def)

end
